theory Spec2Isabelle
  imports Complex_Main "HOL-Library.Monad_Syntax"
begin

section \<open>Values and errors\<close>

text \<open>
  The embedding works over exact real and complex numbers: rounding, overflow and
  underflow of IEEE doubles are not modelled. What is modelled of the floating-point
  behaviour is the point where numpy leaves the real line: a numpy operation outside its
  domain (the square root of a negative number, a division by zero) raises nothing and
  yields \<open>nan\<close> or \<open>inf\<close>, which then spreads through every later operation. Such a value
  is \<open>None\<close>; the special value that IEEE arithmetic makes of it is not followed further.
  Python-level failures are exceptions and are values of \<open>error\<close>.
\<close>

datatype error = IndexError | KeyError | ZeroDivisionError | ValueError | UnboundLocalError

type_synonym npfloat = "real option"

type_synonym npcomplex = "complex option"

definition np_sqrt :: "real \<Rightarrow> npfloat" where
  "np_sqrt x = (if x < 0 then None else Some (sqrt x))"

section \<open>simulate_heston\<close>

text \<open>
  \<open>params\<close> is the dictionary of the source, a map from key to value; a missing key is
  a \<open>KeyError\<close>. The business-day grid is what \<open>pd.date_range\<close> returns and is taken as
  the argument \<open>time_grid\<close>. The two calls of \<open>np.random.standard_normal(m-1)\<close> read the
  process-wide generator; their samples are the arguments \<open>normal0\<close> and \<open>normal1\<close>
  (sample \<open>i\<close> of the first and of the second call).
\<close>

definition day_count :: nat where
  "day_count = 253"

definition dt :: real where
  "dt = 1 / real day_count"

text \<open>Line 38-39: the Euler update of the asset, from the previous column of the path.\<close>

definition euler_S :: "real \<Rightarrow> npfloat \<Rightarrow> npfloat \<Rightarrow> real \<Rightarrow> npfloat" where
  "euler_S mu S V w =
     do { s \<leftarrow> S; v \<leftarrow> V; q \<leftarrow> np_sqrt (v * dt);
          Some (s * (1 + mu * dt + q * w)) }"

text \<open>Line 41-43: the Milstein update of the variance.\<close>

definition milstein_V :: "real \<Rightarrow> real \<Rightarrow> real \<Rightarrow> npfloat \<Rightarrow> npfloat \<Rightarrow> npfloat" where
  "milstein_V kappa theta sigma V w1 =
     do { v \<leftarrow> V; q \<leftarrow> np_sqrt (v * dt); w \<leftarrow> w1;
          Some (v + kappa * (theta - v) * dt + sigma * q * w
                  + 1 / 4 * sigma\<^sup>2 * dt * (w\<^sup>2 - 1)) }"

text \<open>Line 31: \<open>w1 = rho * w0 + np.sqrt(1 - rho ** 2) * w1\<close>, elementwise.\<close>

definition correlate :: "real \<Rightarrow> real list \<Rightarrow> real list \<Rightarrow> npfloat list" where
  "correlate rho w0 w1 =
     map2 (\<lambda>a b. do { q \<leftarrow> np_sqrt (1 - rho\<^sup>2); Some (rho * a + q * b) }) w0 w1"

text \<open>The body of the loop at step \<open>t\<close>; the path is its two rows.\<close>

definition loop_body ::
  "real \<Rightarrow> real \<Rightarrow> real \<Rightarrow> real \<Rightarrow> real list \<Rightarrow> npfloat list \<Rightarrow> nat
     \<Rightarrow> npfloat list \<times> npfloat list \<Rightarrow> npfloat list \<times> npfloat list" where
  "loop_body mu kappa theta sigma w0 w1 t path =
     (case path of (S, V) \<Rightarrow>
        (S[t := euler_S mu (S ! (t - 1)) (V ! (t - 1)) (w0 ! (t - 1))],
         V[t := milstein_V kappa theta sigma (V ! (t - 1)) (w1 ! (t - 1))]))"

record 'd data_frame =
  index :: "'d list"
  S0 :: "npfloat list"
  Var0 :: "npfloat list"

definition simulate_heston ::
  "(string \<rightharpoonup> real) \<Rightarrow> 'd list \<Rightarrow> (nat \<Rightarrow> real) \<Rightarrow> (nat \<Rightarrow> real) \<Rightarrow> error + 'd data_frame" where
  "simulate_heston params time_grid normal0 normal1 =
     (case (params ''mu'', params ''kappa'', params ''theta'', params ''sigma'',
            params ''rho'', params ''s0'', params ''v0'') of
        (Some mu, Some kappa, Some theta, Some sigma, Some rho, Some s0, Some v0) \<Rightarrow>
          (let m = length time_grid in
           if m = 0 then Inl IndexError
           else
             (let path = ((replicate m (Some 0))[0 := Some s0],
                          (replicate m (Some 0))[0 := Some v0]);
                  w0 = map normal0 [0..<m - 1];
                  w1 = map normal1 [0..<m - 1];
                  w1 = correlate rho w0 w1;
                  path = fold (loop_body mu kappa theta sigma w0 w1) [1..<m] path
              in Inr \<lparr>index = time_grid, S0 = fst path, Var0 = snd path\<rparr>))
      | _ \<Rightarrow> Inl KeyError)"

section \<open>ComputeHeston\<close>

text \<open>
  The object holds the five model parameters; \<open>__init__\<close> stores its arguments and has
  no other statement. The constructor returns a result so that a failure, if the code had
  one, would be a value of it.
\<close>

record ComputeHeston =
  self_kappa :: real
  self_theta :: real
  self_sigma :: real
  self_rho :: real
  self_r :: real

definition init :: "real \<Rightarrow> real \<Rightarrow> real \<Rightarrow> real \<Rightarrow> real \<Rightarrow> error + ComputeHeston" where
  "init kappa theta sigma rho r =
     Inr \<lparr>self_kappa = kappa, self_theta = theta, self_sigma = sigma, self_rho = rho, self_r = r\<rparr>"

text \<open>
  \<open>cmath.log\<close>: the principal logarithm, a \<open>ValueError\<close> at zero. A division between
  numpy complex numbers raises nothing at a zero divisor and gives a non-finite value.
\<close>

definition cmath_log :: "complex \<Rightarrow> error + complex" where
  "cmath_log z = (if z = 0 then Inl ValueError else Inr (Complex (ln (cmod z)) (Arg z)))"

definition np_cdiv :: "complex \<Rightarrow> complex \<Rightarrow> npcomplex" where
  "np_cdiv x y = (if y = 0 then None else Some (x / y))"

text \<open>
  \<open>characteristic_func\<close>. \<open>d\<close> is a numpy complex (\<open>np.sqrt\<close> of a Python complex), so
  \<open>g\<close> and the two quotients inside \<open>C\<close> and \<open>D\<close> are numpy divisions. The parameters are
  Python floats, so \<open>self.kappa * self.theta / self.sigma**2\<close> is a Python division and
  raises \<open>ZeroDivisionError\<close>; it is evaluated before the bracket that follows it.
  \<open>cmath.log\<close> of a non-finite value returns it.
\<close>

definition characteristic_func ::
  "ComputeHeston \<Rightarrow> complex \<Rightarrow> real \<Rightarrow> real \<Rightarrow> real \<Rightarrow> error + npcomplex" where
  "characteristic_func self xi s0 v0 tau =
     (let ixi = \<i> * xi;
          a = of_real (self_kappa self) - ixi * of_real (self_rho self) * of_real (self_sigma self);
          d = csqrt (a\<^sup>2 + (of_real (self_sigma self))\<^sup>2 * (ixi + xi\<^sup>2));
          g = np_cdiv (a - d) (a + d);
          ee = exp (- d * of_real tau)
      in if (self_sigma self)\<^sup>2 = 0 then Inl ZeroDivisionError
         else
           (case (case do { g' \<leftarrow> g; np_cdiv (1 - g' * ee) (1 - g') } of
                    None \<Rightarrow> Inr None
                  | Some q \<Rightarrow> map_sum id Some (cmath_log q)) of
              Inl e \<Rightarrow> Inl e
            | Inr lg \<Rightarrow>
                (let C = do { l \<leftarrow> lg;
                              Some (ixi * of_real (self_r self) * of_real tau
                                    + of_real (self_kappa self * self_theta self / (self_sigma self)\<^sup>2)
                                        * ((a - d) * of_real tau - 2 * l)) };
                     D = do { g' \<leftarrow> g; w \<leftarrow> np_cdiv (1 - ee) (1 - g' * ee);
                              Some ((a - d) / of_real ((self_sigma self)\<^sup>2) * w) }
                 in case cmath_log (of_real s0) of
                      Inl e \<Rightarrow> Inl e
                    | Inr ls \<Rightarrow>
                        Inr (do { c \<leftarrow> C; dd \<leftarrow> D;
                                  Some (exp (c + dd * of_real v0 + ixi * ls)) }))))"

text \<open>
  \<open>integ_func\<close>. Both quotients are divisions of Python complex numbers (the value of
  \<open>cmath.exp\<close>), which raise \<open>ZeroDivisionError\<close> at a zero divisor; the operands are
  evaluated left to right, the logarithm of \<open>K\<close> after the quotient.
\<close>

definition integ_func ::
  "ComputeHeston \<Rightarrow> real \<Rightarrow> real \<Rightarrow> real \<Rightarrow> real \<Rightarrow> real \<Rightarrow> nat \<Rightarrow> error + npfloat" where
  "integ_func self xi s0 v0 K tau num =
     (let ixi = \<i> * of_real xi in
      if num = 1 then
        (case characteristic_func self (of_real xi - \<i>) s0 v0 tau of
           Inl e \<Rightarrow> Inl e
         | Inr c1 \<Rightarrow>
            (case characteristic_func self (- \<i>) s0 v0 tau of
               Inl e \<Rightarrow> Inl e
             | Inr c0 \<Rightarrow>
                (let den = map_option (\<lambda>c. ixi * c) c0 in
                 if den = Some 0 then Inl ZeroDivisionError
                 else
                   (case cmath_log (of_real K) of
                      Inl e \<Rightarrow> Inl e
                    | Inr lk \<Rightarrow>
                        Inr (do { n \<leftarrow> c1; dn \<leftarrow> den;
                                  Some (Re (n / dn * exp (- ixi * lk))) })))))
      else
        (case characteristic_func self (of_real xi) s0 v0 tau of
           Inl e \<Rightarrow> Inl e
         | Inr c \<Rightarrow>
            if ixi = 0 then Inl ZeroDivisionError
            else
              (case cmath_log (of_real K) of
                 Inl e \<Rightarrow> Inl e
               | Inr lk \<Rightarrow> Inr (do { n \<leftarrow> c; Some (Re (n / ixi * exp (- ixi * lk))) }))))"

text \<open>The integrand \<open>h\<close> of \<open>call_price\<close> (line 87).\<close>

definition h :: "ComputeHeston \<Rightarrow> real \<Rightarrow> real \<Rightarrow> real \<Rightarrow> real \<Rightarrow> real \<Rightarrow> error + npfloat" where
  "h self s0 v0 K tau xi =
     (case integ_func self xi s0 v0 K tau 1 of
        Inl e \<Rightarrow> Inl e
      | Inr i1 \<Rightarrow>
         (case integ_func self xi s0 v0 K tau 2 of
            Inl e \<Rightarrow> Inl e
          | Inr i2 \<Rightarrow>
              Inr (do { x1 \<leftarrow> i1; x2 \<leftarrow> i2;
                        Some (s0 * x1 - K * exp (- self_r self * tau) * x2) })))"

text \<open>
  \<open>call_price\<close>. \<open>scipy.integrate.quad\<close> is not code of this repository: it is the
  argument \<open>quad\<close>, which receives the integrand and the two bounds and returns the value
  of the integral (component 0 of its result); an exception of the integrand passes
  through it.
\<close>

type_synonym quadrature = "(real \<Rightarrow> error + npfloat) \<Rightarrow> real \<Rightarrow> real \<Rightarrow> error + npfloat"

text \<open>Line 88, \<open>quad(h, 0, 500.)\<close>: the lower and the upper bound that \<open>call_price\<close> passes.\<close>

definition quad_bounds :: "real \<times> real" where
  "quad_bounds = (0, 500)"

definition call_price ::
  "quadrature \<Rightarrow> ComputeHeston \<Rightarrow> real \<Rightarrow> real \<Rightarrow> real \<Rightarrow> real \<Rightarrow> error + npfloat" where
  "call_price quad self s0 v0 K tau =
     (case quad (h self s0 v0 K tau) (fst quad_bounds) (snd quad_bounds) of
        Inl e \<Rightarrow> Inl e
      | Inr integral \<Rightarrow>
          Inr (do { y \<leftarrow> integral;
                    Some (0.5 * (s0 - K * exp (- self_r self * tau)) + 1 / pi * y) }))"

text \<open>
  A one-node rule, to run \<open>call_price\<close> with: the integrand at \<open>a + lam * (b - a)\<close> times
  the length of the interval. \<open>lam = 0\<close> is the left rectangle rule, which samples the
  lower bound; \<open>lam = 1 / 2\<close> is the midpoint rule.
\<close>

definition rectangle_rule :: "real \<Rightarrow> quadrature" where
  "rectangle_rule lam f a b =
     (case f (a + lam * (b - a)) of
        Inl e \<Rightarrow> Inl e
      | Inr y \<Rightarrow> Inr (map_option (\<lambda>v. (b - a) * v) y))"

section \<open>Table wrappers\<close>

text \<open>
  A table has \<open>nrows\<close> rows, labelled by their positions (so the labels are unique and
  \<open>df.loc[ix, c]\<close> addresses one cell), and named columns of floats; a column is the
  function from the position to the cell. Reading a column that the table does not have
  from a row is a \<open>KeyError\<close>. Writing \<open>df.loc[ix, c] = v\<close> into a column that the table
  does not have creates the column, with \<open>nan\<close> in every other row.
\<close>

record table =
  nrows :: nat
  cells :: "string \<rightharpoonup> (nat \<Rightarrow> npfloat)"

definition cell :: "table \<Rightarrow> nat \<Rightarrow> string \<Rightarrow> npfloat option" where
  "cell df ix c = map_option (\<lambda>col. col ix) (cells df c)"

definition set_loc :: "table \<Rightarrow> nat \<Rightarrow> string \<Rightarrow> npfloat \<Rightarrow> table" where
  "set_loc df ix c v =
     df\<lparr>cells := (cells df)(c \<mapsto> (case cells df c of None \<Rightarrow> (\<lambda>_. None) | Some col \<Rightarrow> col)(ix := v))\<rparr>"

text \<open>
  The pricer is any object with a \<open>call_price\<close> method: it is that method, as a
  function. The cells it is called with are numpy floats.
\<close>

type_synonym pricer = "npfloat \<Rightarrow> npfloat \<Rightarrow> npfloat \<Rightarrow> npfloat \<Rightarrow> error + npfloat"

definition np_add :: "npfloat \<Rightarrow> npfloat \<Rightarrow> npfloat" where
  "np_add x y = do { a \<leftarrow> x; b \<leftarrow> y; Some (a + b) }"

definition np_sub :: "npfloat \<Rightarrow> npfloat \<Rightarrow> npfloat" where
  "np_sub x y = do { a \<leftarrow> x; b \<leftarrow> y; Some (a - b) }"

definition np_mul :: "npfloat \<Rightarrow> npfloat \<Rightarrow> npfloat" where
  "np_mul x y = do { a \<leftarrow> x; b \<leftarrow> y; Some (a * b) }"

definition np_divide :: "npfloat \<Rightarrow> npfloat \<Rightarrow> npfloat" where
  "np_divide x y = do { a \<leftarrow> x; b \<leftarrow> y; if b = 0 then None else Some (a / b) }"

definition np_maximum :: "npfloat \<Rightarrow> npfloat \<Rightarrow> npfloat" where
  "np_maximum x y = do { a \<leftarrow> x; b \<leftarrow> y; Some (max a b) }"

text \<open>A comparison with \<open>nan\<close> is false.\<close>

definition np_less :: "npfloat \<Rightarrow> real \<Rightarrow> bool" where
  "np_less x c = (case x of None \<Rightarrow> False | Some v \<Rightarrow> v < c)"

text \<open>
  The state of a wrapper while it runs: the table, which it mutates in place, the local
  variable \<open>price\<close> (\<open>None\<close> while unbound), and the calls of \<open>call_price\<close> made so far, with
  their arguments. A wrapper ends with the state it reached and the exception that
  stopped it, if one did.
\<close>

record frame_state =
  frame :: table
  price :: "npfloat option"
  calls :: "(npfloat \<times> npfloat \<times> npfloat \<times> npfloat) list"

text \<open>
  \<open>for ix, row in df.iterrows()\<close>: the body runs for each position in turn and an
  exception ends the loop. \<open>iterrows\<close> takes the rows from the table as it is when the
  loop starts (\<open>zip(self.index, self.values)\<close>), so the body reads its row from that
  table, the argument \<open>df\<close> of the two bodies below. Each body writes only the row it was
  given, after reading it, so a row read from the table under mutation would be the same.
\<close>

fun iterrows ::
  "(nat \<Rightarrow> frame_state \<Rightarrow> frame_state \<times> error option) \<Rightarrow> nat list \<Rightarrow> frame_state
     \<Rightarrow> frame_state \<times> error option" where
  "iterrows body [] st = (st, None)"
| "iterrows body (ix # rest) st =
     (case body ix st of
        (st', None) \<Rightarrow> iterrows body rest st'
      | (st', Some e) \<Rightarrow> (st', Some e))"

text \<open>Lines 99-105: the body of the loop of \<open>hs_price_wrapper\<close>.\<close>

definition hs_price_row ::
  "table \<Rightarrow> pricer \<Rightarrow> nat \<Rightarrow> frame_state \<Rightarrow> frame_state \<times> error option" where
  "hs_price_row df pricer ix st =
     (case (cell df ix ''S0'', cell df ix ''Var0'', cell df ix ''tau0'', cell df ix ''K'') of
        (Some s, Some var, Some tau, Some k) \<Rightarrow>
          if np_less tau 0.0039
          then (st\<lparr>frame := set_loc (frame st) ix ''V0'' (np_maximum (np_sub s k) (Some 0))\<rparr>, None)
          else
            (case pricer s var k tau of
               Inl e \<Rightarrow> (st\<lparr>calls := calls st @ [(s, var, k, tau)]\<rparr>, Some e)
             | Inr p \<Rightarrow>
                 (st\<lparr>calls := calls st @ [(s, var, k, tau)], price := Some p,
                     frame := set_loc (frame st) ix ''V0'' p\<rparr>, None))
      | _ \<Rightarrow> (st, Some KeyError))"

definition hs_price_wrapper :: "table \<Rightarrow> pricer \<Rightarrow> frame_state \<times> error option" where
  "hs_price_wrapper df pricer =
     iterrows (hs_price_row df pricer) [0..<nrows df] \<lparr>frame = df, price = None, calls = []\<rparr>"

text \<open>
  Lines 113-119: the body of the loop of \<open>hs_price_1M_ATM_wrapper\<close>. The assignment of
  line 119 is outside the \<open>if\<close>: it runs after either branch and reads \<open>price\<close>.
\<close>

definition hs_price_1M_ATM_row ::
  "table \<Rightarrow> pricer \<Rightarrow> string \<Rightarrow> string \<Rightarrow> string \<Rightarrow> string \<Rightarrow> nat \<Rightarrow> frame_state
     \<Rightarrow> frame_state \<times> error option" where
  "hs_price_1M_ATM_row df pricer s_name var_name tau_name v_name ix st =
     (case (cell df ix s_name, cell df ix var_name, cell df ix ''K'', cell df ix tau_name) of
        (Some s, Some var, Some k, Some tau) \<Rightarrow>
          (case (if np_less tau 0.0039
                 then (st\<lparr>frame := set_loc (frame st) ix v_name
                                      (np_maximum (np_sub s k) (Some 0))\<rparr>, None)
                 else
                   (case pricer s var k tau of
                      Inl e \<Rightarrow> (st\<lparr>calls := calls st @ [(s, var, k, tau)]\<rparr>, Some e)
                    | Inr p \<Rightarrow>
                        (st\<lparr>calls := calls st @ [(s, var, k, tau)], price := Some p\<rparr>, None))) of
             (st1, Some e) \<Rightarrow> (st1, Some e)
           | (st1, None) \<Rightarrow>
               (case price st1 of
                  None \<Rightarrow> (st1, Some UnboundLocalError)
                | Some p \<Rightarrow> (st1\<lparr>frame := set_loc (frame st1) ix v_name p\<rparr>, None)))
      | _ \<Rightarrow> (st, Some KeyError))"

definition hs_price_1M_ATM_wrapper ::
  "table \<Rightarrow> pricer \<Rightarrow> string \<Rightarrow> string \<Rightarrow> string \<Rightarrow> string \<Rightarrow> frame_state \<times> error option" where
  "hs_price_1M_ATM_wrapper df pricer s_name var_name tau_name v_name =
     iterrows (hs_price_1M_ATM_row df pricer s_name var_name tau_name v_name) [0..<nrows df]
       \<lparr>frame = df, price = None, calls = []\<rparr>"

section \<open>Finite differences\<close>

text \<open>
  The prices are numpy floats (\<open>call_price\<close> goes through \<open>np.exp\<close>), so the final
  quotient is a numpy division: a zero bump gives a non-finite value, not an exception.
\<close>

definition calc_Heston_delta_by_FD ::
  "npfloat \<Rightarrow> npfloat \<Rightarrow> npfloat \<Rightarrow> npfloat \<Rightarrow> pricer \<Rightarrow> error + npfloat" where
  "calc_Heston_delta_by_FD s0 v0 k tau pricer =
     (let ds = np_mul s0 (Some 0.001) in
      case pricer (np_add s0 ds) v0 k tau of
        Inl e \<Rightarrow> Inl e
      | Inr p_plus \<Rightarrow>
         (case pricer (np_sub s0 ds) v0 k tau of
            Inl e \<Rightarrow> Inl e
          | Inr p_minus \<Rightarrow> Inr (np_divide (np_sub p_plus p_minus) (np_mul (Some 2) ds))))"

definition calc_Heston_vega_by_FD ::
  "npfloat \<Rightarrow> npfloat \<Rightarrow> npfloat \<Rightarrow> npfloat \<Rightarrow> pricer \<Rightarrow> error + npfloat" where
  "calc_Heston_vega_by_FD s0 v0 k tau pricer =
     (let dv = np_mul v0 (Some 0.001) in
      case pricer s0 (np_add v0 dv) k tau of
        Inl e \<Rightarrow> Inl e
      | Inr p_plus \<Rightarrow>
         (case pricer s0 (np_sub v0 dv) k tau of
            Inl e \<Rightarrow> Inl e
          | Inr p_minus \<Rightarrow> Inr (np_divide (np_sub p_plus p_minus) (np_mul (Some 2) dv))))"


section \<open>Sample inputs\<close>

text \<open>
  Concrete arguments at which the functions above are run further down: parameter
  dictionaries and shock sequences for the simulator, two parameter sets for the pricer,
  a row of a quote table and a pricer that returns the intrinsic value.
\<close>

text \<open>A parameter set whose second step leaves the variance negative, with the shocks that do it.\<close>

definition undershoot_params :: "string \<rightharpoonup> real" where
  "undershoot_params = [''mu'' \<mapsto> 0, ''kappa'' \<mapsto> 1, ''theta'' \<mapsto> 253, ''sigma'' \<mapsto> 506,
                        ''rho'' \<mapsto> 1, ''s0'' \<mapsto> 100, ''v0'' \<mapsto> 253]"

definition undershoot_normal0 :: "nat \<Rightarrow> real" where
  "undershoot_normal0 i = (if i = 0 then - 1 else 0)"

definition undershoot_normal1 :: "nat \<Rightarrow> real" where
  "undershoot_normal1 i = 0"

text \<open>The first parameter set with \<open>rho = -1\<close>.\<close>

definition mirrored_params :: "string \<rightharpoonup> real" where
  "mirrored_params = [''mu'' \<mapsto> 0, ''kappa'' \<mapsto> 1, ''theta'' \<mapsto> 253, ''sigma'' \<mapsto> 506,
                      ''rho'' \<mapsto> - 1, ''s0'' \<mapsto> 100, ''v0'' \<mapsto> 253]"

text \<open>A parameter set outside the model's domain: a negative \<open>sigma\<close> and \<open>rho = 5\<close>.\<close>

definition invalid_params :: "string \<rightharpoonup> real" where
  "invalid_params = [''mu'' \<mapsto> 0, ''kappa'' \<mapsto> 1, ''theta'' \<mapsto> 253, ''sigma'' \<mapsto> - 1,
                     ''rho'' \<mapsto> 5, ''s0'' \<mapsto> 100, ''v0'' \<mapsto> 253]"

text \<open>A pricer with \<open>theta = 0\<close> and \<open>r = 0\<close>, at which the characteristic function can be evaluated in closed form.\<close>

definition flat_pricer :: ComputeHeston where
  "flat_pricer = \<lparr>self_kappa = 2, self_theta = 0, self_sigma = 3, self_rho = 0, self_r = 0\<rparr>"

text \<open>The parameter set of the benchmark scenario: \<open>kappa = 2\<close>, \<open>theta = 0.04\<close>, \<open>sigma = 0.3\<close>, \<open>rho = -0.5\<close>, \<open>r = 0.01\<close>.\<close>

definition benchmark_pricer :: ComputeHeston where
  "benchmark_pricer =
     \<lparr>self_kappa = 2, self_theta = 0.04, self_sigma = 0.3, self_rho = - 0.5, self_r = 0.01\<rparr>"

text \<open>A table with the four input columns of \<open>hs_price_wrapper\<close>, one row for each quadruple \<open>(S0, Var0, K, tau0)\<close>.\<close>

definition quotes :: "(real \<times> real \<times> real \<times> real) list \<Rightarrow> table" where
  "quotes qs =
     \<lparr>nrows = length qs,
      cells = [''S0'' \<mapsto> (\<lambda>i. Some (fst (qs ! i))),
               ''Var0'' \<mapsto> (\<lambda>i. Some (fst (snd (qs ! i)))),
               ''K'' \<mapsto> (\<lambda>i. Some (fst (snd (snd (qs ! i))))),
               ''tau0'' \<mapsto> (\<lambda>i. Some (snd (snd (snd (qs ! i)))))]\<rparr>"

text \<open>A pricer object whose \<open>call_price\<close> returns \<open>max(s - k, 0)\<close>.\<close>

definition intrinsic_pricer :: pricer where
  "intrinsic_pricer s var k tau = Inr (np_maximum (np_sub s k) (Some 0))"

section \<open>The simulated path\<close>

lemma loop_body_fst:
  "fst (loop_body mu kappa theta sigma w0 w1 t P) =
     (fst P)[t := euler_S mu (fst P ! (t - 1)) (snd P ! (t - 1)) (w0 ! (t - 1))]"
  by (simp add: loop_body_def split: prod.splits)

lemma loop_body_snd:
  "snd (loop_body mu kappa theta sigma w0 w1 t P) =
     (snd P)[t := milstein_V kappa theta sigma (snd P ! (t - 1)) (w1 ! (t - 1))]"
  by (simp add: loop_body_def split: prod.splits)

text \<open>
  The loop of \<open>simulate_heston\<close>, run up to step \<open>n\<close>: the rows keep their length,
  column 0 and the columns from \<open>n\<close> on are untouched, and every column \<open>t\<close> with
  \<open>1 \<le> t < n\<close> holds the update computed from column \<open>t - 1\<close> of the finished path.
\<close>

lemma fold_loop_body:
  assumes "length (fst P0) = m" "length (snd P0) = m" "n \<le> m"
  shows "length (fst (fold (loop_body mu kappa theta sigma w0 w1) [1..<n] P0)) = m
       \<and> length (snd (fold (loop_body mu kappa theta sigma w0 w1) [1..<n] P0)) = m
       \<and> (\<forall>t. t = 0 \<or> n \<le> t \<longrightarrow>
             fst (fold (loop_body mu kappa theta sigma w0 w1) [1..<n] P0) ! t = fst P0 ! t
           \<and> snd (fold (loop_body mu kappa theta sigma w0 w1) [1..<n] P0) ! t = snd P0 ! t)
       \<and> (\<forall>t. 1 \<le> t \<and> t < n \<longrightarrow>
             fst (fold (loop_body mu kappa theta sigma w0 w1) [1..<n] P0) ! t
               = euler_S mu (fst (fold (loop_body mu kappa theta sigma w0 w1) [1..<n] P0) ! (t - 1))
                           (snd (fold (loop_body mu kappa theta sigma w0 w1) [1..<n] P0) ! (t - 1))
                           (w0 ! (t - 1))
           \<and> snd (fold (loop_body mu kappa theta sigma w0 w1) [1..<n] P0) ! t
               = milstein_V kappa theta sigma
                           (snd (fold (loop_body mu kappa theta sigma w0 w1) [1..<n] P0) ! (t - 1))
                           (w1 ! (t - 1)))"
  using assms(3)
proof (induction n)
  case 0
  then show ?case using assms(1,2) by simp
next
  case (Suc n)
  show ?case
  proof (cases "n = 0")
    case True
    then show ?thesis using assms(1,2) by simp
  next
    case False
    define P where "P = fold (loop_body mu kappa theta sigma w0 w1) [1..<n] P0"
    have upt: "[1..<Suc n] = [1..<n] @ [n]" using False by simp
    have step: "fold (loop_body mu kappa theta sigma w0 w1) [1..<Suc n] P0
                  = loop_body mu kappa theta sigma w0 w1 n P"
      unfolding upt P_def by simp
    have IH: "length (fst P) = m" "length (snd P) = m"
      "\<And>t. t = 0 \<or> n \<le> t \<Longrightarrow> fst P ! t = fst P0 ! t \<and> snd P ! t = snd P0 ! t"
      "\<And>t. 1 \<le> t \<Longrightarrow> t < n \<Longrightarrow>
          fst P ! t = euler_S mu (fst P ! (t - 1)) (snd P ! (t - 1)) (w0 ! (t - 1))
        \<and> snd P ! t = milstein_V kappa theta sigma (snd P ! (t - 1)) (w1 ! (t - 1))"
      using Suc unfolding P_def by auto
    have nm: "n < m" using Suc.prems by simp
    show ?thesis
      unfolding step loop_body_fst loop_body_snd
    proof (intro conjI allI impI)
      show "length ((fst P)[n := euler_S mu (fst P ! (n - 1)) (snd P ! (n - 1)) (w0 ! (n - 1))]) = m"
        using IH(1) by simp
      show "length ((snd P)[n := milstein_V kappa theta sigma (snd P ! (n - 1)) (w1 ! (n - 1))]) = m"
        using IH(2) by simp
    next
      fix t assume "t = 0 \<or> Suc n \<le> t"
      then have "t \<noteq> n" "t = 0 \<or> n \<le> t" using False by auto
      then show "(fst P)[n := euler_S mu (fst P ! (n - 1)) (snd P ! (n - 1)) (w0 ! (n - 1))] ! t = fst P0 ! t"
        using IH(3)[of t] by simp
      from \<open>t \<noteq> n\<close> \<open>t = 0 \<or> n \<le> t\<close>
      show "(snd P)[n := milstein_V kappa theta sigma (snd P ! (n - 1)) (w1 ! (n - 1))] ! t = snd P0 ! t"
        using IH(3)[of t] by simp
    next
      fix t assume t: "1 \<le> t \<and> t < Suc n"
      show "(fst P)[n := euler_S mu (fst P ! (n - 1)) (snd P ! (n - 1)) (w0 ! (n - 1))] ! t =
            euler_S mu ((fst P)[n := euler_S mu (fst P ! (n - 1)) (snd P ! (n - 1)) (w0 ! (n - 1))] ! (t - 1))
               ((snd P)[n := milstein_V kappa theta sigma (snd P ! (n - 1)) (w1 ! (n - 1))] ! (t - 1))
               (w0 ! (t - 1))"
      proof (cases "t = n")
        case True
        then show ?thesis using nm IH(1,2) False by simp
      next
        case F: False
        then have "t < n" "t - 1 \<noteq> n" using t by auto
        then show ?thesis using IH(4)[of t] t F by (simp add: nth_list_update_neq)
      qed
      show "(snd P)[n := milstein_V kappa theta sigma (snd P ! (n - 1)) (w1 ! (n - 1))] ! t =
            milstein_V kappa theta sigma
               ((snd P)[n := milstein_V kappa theta sigma (snd P ! (n - 1)) (w1 ! (n - 1))] ! (t - 1))
               (w1 ! (t - 1))"
      proof (cases "t = n")
        case True
        then show ?thesis using nm IH(1,2) False by simp
      next
        case F: False
        then have "t < n" "t - 1 \<noteq> n" using t by auto
        then show ?thesis using IH(4)[of t] t F by (simp add: nth_list_update_neq)
      qed
    qed
  qed
qed

lemma simulate_heston_Inr:
  assumes "params ''mu'' = Some mu" "params ''kappa'' = Some kappa" "params ''theta'' = Some theta"
    "params ''sigma'' = Some sigma" "params ''rho'' = Some rho" "params ''s0'' = Some s0"
    "params ''v0'' = Some v0" "time_grid \<noteq> []"
  shows "simulate_heston params time_grid normal0 normal1 =
     Inr \<lparr>index = time_grid,
          S0 = fst (fold (loop_body mu kappa theta sigma (map normal0 [0..<length time_grid - 1])
                 (correlate rho (map normal0 [0..<length time_grid - 1]) (map normal1 [0..<length time_grid - 1])))
                 [1..<length time_grid]
                 ((replicate (length time_grid) (Some 0))[0 := Some s0],
                  (replicate (length time_grid) (Some 0))[0 := Some v0])),
          Var0 = snd (fold (loop_body mu kappa theta sigma (map normal0 [0..<length time_grid - 1])
                 (correlate rho (map normal0 [0..<length time_grid - 1]) (map normal1 [0..<length time_grid - 1])))
                 [1..<length time_grid]
                 ((replicate (length time_grid) (Some 0))[0 := Some s0],
                  (replicate (length time_grid) (Some 0))[0 := Some v0]))\<rparr>"
  using assms by (simp add: simulate_heston_def Let_def)

lemma one_less_square_iff: "(1 < rho\<^sup>2) = (1 < \<bar>rho :: real\<bar>)"
  using abs_square_le_1 [of rho] by linarith

lemma correlate_nth:
  "i < k \<Longrightarrow> correlate rho (map f [0..<k]) (map g [0..<k]) ! i =
     (if \<bar>rho\<bar> \<le> 1 then Some (rho * f i + sqrt (1 - rho\<^sup>2) * g i) else None)"
  by (simp add: correlate_def np_sqrt_def one_less_square_iff)

lemma undershoot_run:
  "simulate_heston undershoot_params [0, 1, 2 :: nat] undershoot_normal0 undershoot_normal1 =
     Inr \<lparr>index = [0, 1, 2], S0 = [Some 100, Some 0, None],
          Var0 = [Some 253, Some (- 253), None]\<rparr>"
  by (simp add: simulate_heston_def undershoot_params_def undershoot_normal0_def
        undershoot_normal1_def Let_def correlate_def np_sqrt_def loop_body_def euler_S_def
        milstein_V_def dt_def day_count_def upt_rec numeral_2_eq_2 numeral_3_eq_3)

lemma simulate_heston_steps:
  assumes keys: "params ''mu'' = Some mu" "params ''kappa'' = Some kappa"
    "params ''theta'' = Some theta" "params ''sigma'' = Some sigma" "params ''rho'' = Some rho"
    "params ''s0'' = Some s0" "params ''v0'' = Some v0"
    and run: "simulate_heston params time_grid normal0 normal1 = Inr df"
  shows "index df = time_grid \<and> length (S0 df) = length time_grid
       \<and> length (Var0 df) = length time_grid
       \<and> S0 df ! 0 = Some s0 \<and> Var0 df ! 0 = Some v0
       \<and> (\<forall>t. 1 \<le> t \<and> t < length time_grid \<longrightarrow>
             S0 df ! t = euler_S mu (S0 df ! (t - 1)) (Var0 df ! (t - 1)) (normal0 (t - 1))
           \<and> Var0 df ! t = milstein_V kappa theta sigma (Var0 df ! (t - 1))
                 (if \<bar>rho\<bar> \<le> 1
                  then Some (rho * normal0 (t - 1) + sqrt (1 - rho\<^sup>2) * normal1 (t - 1))
                  else None))"
proof -
  define m where "m = length time_grid"
  define w0 where "w0 = map normal0 [0..<m - 1]"
  define w1 where "w1 = correlate rho w0 (map normal1 [0..<m - 1])"
  define P0 where "P0 = ((replicate m (Some (0::real)))[0 := Some s0],
                         (replicate m (Some (0::real)))[0 := Some v0])"
  define P where "P = fold (loop_body mu kappa theta sigma w0 w1) [1..<m] P0"
  have ne: "time_grid \<noteq> []"
    using run keys by (auto simp: simulate_heston_def)
  then have mpos: "0 < m" by (simp add: m_def)
  have df: "df = \<lparr>index = time_grid, S0 = fst P, Var0 = snd P\<rparr>"
    using run simulate_heston_Inr [OF keys ne, of normal0 normal1]
    by (simp add: P_def P0_def w0_def w1_def m_def)
  have inv: "length (fst P) = m \<and> length (snd P) = m
       \<and> (\<forall>t. t = 0 \<or> m \<le> t \<longrightarrow> fst P ! t = fst P0 ! t \<and> snd P ! t = snd P0 ! t)
       \<and> (\<forall>t. 1 \<le> t \<and> t < m \<longrightarrow>
             fst P ! t = euler_S mu (fst P ! (t - 1)) (snd P ! (t - 1)) (w0 ! (t - 1))
           \<and> snd P ! t = milstein_V kappa theta sigma (snd P ! (t - 1)) (w1 ! (t - 1)))"
    unfolding P_def
    by (rule fold_loop_body) (simp_all add: P0_def)
  have first: "fst P ! 0 = Some s0" "snd P ! 0 = Some v0"
    using inv mpos by (simp_all add: P0_def)
  have shocks: "w0 ! (t - 1) = normal0 (t - 1) \<and>
      w1 ! (t - 1) = (if \<bar>rho\<bar> \<le> 1
                  then Some (rho * normal0 (t - 1) + sqrt (1 - rho\<^sup>2) * normal1 (t - 1))
                  else None)" if "1 \<le> t" "t < m" for t
  proof -
    have "t - 1 < m - 1" using that by simp
    then show ?thesis
      unfolding w1_def w0_def by (simp add: correlate_nth)
  qed
  show ?thesis
    using inv first shocks by (simp add: df m_def)
qed

lemma undershoot_keys:
  "undershoot_params ''mu'' = Some 0" "undershoot_params ''kappa'' = Some 1"
  "undershoot_params ''theta'' = Some 253" "undershoot_params ''sigma'' = Some 506"
  "undershoot_params ''rho'' = Some 1" "undershoot_params ''s0'' = Some 100"
  "undershoot_params ''v0'' = Some 253"
  by (simp_all add: undershoot_params_def)

text \<open>
  Claim C2, as the code has it. The path returned by \<open>simulate_heston\<close> holds \<open>s0\<close> and
  \<open>v0\<close> at index 0. At a step \<open>t\<close> with \<open>1 \<le> t < m\<close> whose previous values
  \<open>S[t-1] = s\<close> and \<open>V[t-1] = v\<close> are numbers: if \<open>v \<ge> 0\<close>, then \<open>S[t]\<close> is the Euler
  value \<open>s * (1 + mu*dt + sqrt(max(v,0)*dt) * w0[t-1])\<close> and, for \<open>rho\<close> in \<open>[-1, 1]\<close>,
  \<open>V[t]\<close> is the Milstein value with \<open>w1[t-1] = rho*w0[t-1] + sqrt(1-rho^2)*aux[t-1]\<close>,
  where \<open>dt = 1/253\<close>; if \<open>v < 0\<close>, the square root is not guarded and both \<open>S[t]\<close> and
  \<open>V[t]\<close> are \<open>nan\<close>.
\<close>

theorem simulate_heston_recurrence:
  assumes "params ''mu'' = Some mu" "params ''kappa'' = Some kappa"
    "params ''theta'' = Some theta" "params ''sigma'' = Some sigma" "params ''rho'' = Some rho"
    "params ''s0'' = Some s0" "params ''v0'' = Some v0"
    and "simulate_heston params time_grid normal0 normal1 = Inr df"
  shows "S0 df ! 0 = Some s0 \<and> Var0 df ! 0 = Some v0
       \<and> (\<forall>t s v. 1 \<le> t \<and> t < length time_grid
               \<and> S0 df ! (t - 1) = Some s \<and> Var0 df ! (t - 1) = Some v \<longrightarrow>
             (0 \<le> v \<longrightarrow>
                S0 df ! t = Some (s * (1 + mu * (1 / 253)
                                     + sqrt (max v 0 * (1 / 253)) * normal0 (t - 1)))
              \<and> (\<bar>rho\<bar> \<le> 1 \<longrightarrow>
                   Var0 df ! t =
                     Some (v + kappa * (theta - v) * (1 / 253)
                           + sigma * sqrt (max v 0 * (1 / 253))
                               * (rho * normal0 (t - 1) + sqrt (1 - rho\<^sup>2) * normal1 (t - 1))
                           + sigma\<^sup>2 / 4 * (1 / 253)
                               * ((rho * normal0 (t - 1) + sqrt (1 - rho\<^sup>2) * normal1 (t - 1))\<^sup>2 - 1))))
           \<and> (v < 0 \<longrightarrow> S0 df ! t = None \<and> Var0 df ! t = None))"
proof -
  note st = simulate_heston_steps [OF assms]
  have "S0 df ! 0 = Some s0" "Var0 df ! 0 = Some v0" using st by simp_all
  moreover have "(0 \<le> v \<longrightarrow>
                S0 df ! t = Some (s * (1 + mu * (1 / 253)
                                     + sqrt (max v 0 * (1 / 253)) * normal0 (t - 1)))
              \<and> (\<bar>rho\<bar> \<le> 1 \<longrightarrow>
                   Var0 df ! t =
                     Some (v + kappa * (theta - v) * (1 / 253)
                           + sigma * sqrt (max v 0 * (1 / 253))
                               * (rho * normal0 (t - 1) + sqrt (1 - rho\<^sup>2) * normal1 (t - 1))
                           + sigma\<^sup>2 / 4 * (1 / 253)
                               * ((rho * normal0 (t - 1) + sqrt (1 - rho\<^sup>2) * normal1 (t - 1))\<^sup>2 - 1))))
           \<and> (v < 0 \<longrightarrow> S0 df ! t = None \<and> Var0 df ! t = None)"
    if "1 \<le> t" "t < length time_grid" "S0 df ! (t - 1) = Some s" "Var0 df ! (t - 1) = Some v"
    for t s v
  proof -
    have e: "S0 df ! t = euler_S mu (Some s) (Some v) (normal0 (t - 1))"
      and m: "Var0 df ! t = milstein_V kappa theta sigma (Some v)
                 (if \<bar>rho\<bar> \<le> 1
                  then Some (rho * normal0 (t - 1) + sqrt (1 - rho\<^sup>2) * normal1 (t - 1))
                  else None)"
      using st that by simp_all
    have nonneg: "0 \<le> v \<Longrightarrow> np_sqrt (v * dt) = Some (sqrt (max v 0 * (1 / 253)))"
      by (simp add: np_sqrt_def dt_def day_count_def max_def zero_le_mult_iff)
    have neg: "v < 0 \<Longrightarrow> np_sqrt (v * dt) = None"
      by (simp add: np_sqrt_def dt_def day_count_def mult_less_0_iff)
    show ?thesis
      unfolding e m euler_S_def milstein_V_def
      using nonneg neg by (auto simp: dt_def day_count_def)
  qed
  ultimately show ?thesis by blast
qed

text \<open>
  The recurrence at a concrete run of three grid points: step 1 starts from the variance
  253 and is the Euler value, step 2 starts from the variance \<open>-253\<close> and is \<open>nan\<close>.
\<close>

theorem simulate_heston_recurrence_witness:
  "simulate_heston undershoot_params [0, 1, 2 :: nat] undershoot_normal0 undershoot_normal1 =
     Inr \<lparr>index = [0, 1, 2], S0 = [Some 100, Some 0, None],
          Var0 = [Some 253, Some (- 253), None]\<rparr>
   \<and> [Some 100, Some 0, None] ! 0 = Some (100 :: real)
   \<and> [Some 253, Some (- 253), None] ! 0 = Some (253 :: real)
   \<and> [Some 100, Some 0, None] ! 1
        = Some (100 * (1 + 0 * (1 / 253) + sqrt (max 253 0 * (1 / 253)) * undershoot_normal0 0))
   \<and> [Some 100, Some 0, None] ! 2 = (None :: real option)"
proof -
  note r = simulate_heston_recurrence [OF undershoot_keys undershoot_run]
  note step = r [THEN conjunct2, THEN conjunct2, rule_format]
  show ?thesis
    using undershoot_run r [THEN conjunct1] r [THEN conjunct2, THEN conjunct1]
      step [of 1 100 253] step [of 2 0 "- 253"]
    by (simp add: undershoot_normal0_def)
qed

text \<open>
  Claim C2 as stated fails: with \<open>kappa = 1\<close>, \<open>theta = 253\<close>, \<open>sigma = 506\<close>, \<open>rho = 1\<close>,
  \<open>mu = 0\<close>, \<open>s0 = 100\<close>, \<open>v0 = 253\<close> and the shocks \<open>w0 = [-1, 0]\<close>, step 1 gives
  \<open>S[1] = 0\<close> and \<open>V[1] = -253\<close>, and at step 2 the path holds \<open>nan\<close> in both rows, not
  the values \<open>0\<close> and \<open>-504\<close> that the recurrence with \<open>max(V[t-1], 0)\<close> gives.
\<close>

theorem simulate_heston_guard_counterexample:
  "simulate_heston undershoot_params [0, 1, 2 :: nat] undershoot_normal0 undershoot_normal1 =
     Inr \<lparr>index = [0, 1, 2], S0 = [Some 100, Some 0, None],
          Var0 = [Some 253, Some (- 253), None]\<rparr>
   \<and> [Some 100, Some 0, None] ! 2
        \<noteq> Some (0 * (1 + 0 * (1 / 253) + sqrt (max (- 253) 0 * (1 / 253)) * undershoot_normal0 1))
   \<and> [Some 253, Some (- 253), None] ! 2
        \<noteq> Some (- 253 + 1 * (253 - (- 253)) * (1 / 253)
                 + 506 * sqrt (max (- 253) 0 * (1 / 253)) * undershoot_normal0 1
                 + 506\<^sup>2 / 4 * (1 / 253) * ((undershoot_normal0 1)\<^sup>2 - 1))"
  using undershoot_run by simp

text \<open>
  Claim C6 as stated fails: on a grid of one point, \<open>m = 1 < 2\<close>, \<open>simulate_heston\<close>
  raises nothing and returns the one-row path.
\<close>

theorem simulate_heston_single_point_counterexample:
  "simulate_heston undershoot_params [0 :: nat] undershoot_normal0 undershoot_normal1 =
     Inr \<lparr>index = [0], S0 = [Some 100], Var0 = [Some 253]\<rparr>"
  by (simp add: simulate_heston_def undershoot_params_def)

text \<open>
  Claim C6, as the code has it. \<open>simulate_heston\<close> has no check of the grid length: on a
  grid of length 1 it returns the path whose only row is \<open>(s0, v0)\<close>; on an empty grid
  the write of index 0 fails with \<open>IndexError\<close> and no path is returned.
\<close>

theorem simulate_heston_short_grid:
  assumes "params ''mu'' = Some mu" "params ''kappa'' = Some kappa"
    "params ''theta'' = Some theta" "params ''sigma'' = Some sigma" "params ''rho'' = Some rho"
    "params ''s0'' = Some s0" "params ''v0'' = Some v0"
  shows "(length time_grid = 1 \<longrightarrow>
            simulate_heston params time_grid normal0 normal1 =
              Inr \<lparr>index = time_grid, S0 = [Some s0], Var0 = [Some v0]\<rparr>)
       \<and> (time_grid = [] \<longrightarrow>
            simulate_heston params time_grid normal0 normal1 = Inl IndexError)"
  using assms by (auto simp: simulate_heston_def)

text \<open>
  Both short grids at the sample parameters.
\<close>

theorem simulate_heston_short_grid_witness:
  "simulate_heston undershoot_params [0 :: nat] undershoot_normal0 undershoot_normal1 =
     Inr \<lparr>index = [0], S0 = [Some 100], Var0 = [Some 253]\<rparr>
   \<and> simulate_heston undershoot_params ([] :: nat list) undershoot_normal0 undershoot_normal1
        = Inl IndexError"
  using simulate_heston_short_grid [OF undershoot_keys, of "[0 :: nat]" undershoot_normal0 undershoot_normal1]
    simulate_heston_short_grid [OF undershoot_keys, of "[] :: nat list" undershoot_normal0 undershoot_normal1]
  by simp

text \<open>
  Line 31 elementwise: \<open>w1[i] = rho*w0[i] + sqrt(1 - rho^2)*aux[i]\<close> (\<open>nan\<close> when \<open>rho\<close> is
  outside \<open>[-1, 1]\<close>, where the square root has a negative argument); for \<open>rho = 1\<close> the
  sequence is \<open>w0\<close>, for \<open>rho = -1\<close> it is \<open>-w0\<close>.
\<close>

lemma correlate_elementwise:
  "correlate rho (map normal0 [0..<k]) (map normal1 [0..<k]) =
     map (\<lambda>i. if \<bar>rho\<bar> \<le> 1
              then Some (rho * normal0 i + sqrt (1 - rho\<^sup>2) * normal1 i) else None) [0..<k]
   \<and> correlate 1 (map normal0 [0..<k]) (map normal1 [0..<k]) = map (\<lambda>i. Some (normal0 i)) [0..<k]
   \<and> correlate (- 1) (map normal0 [0..<k]) (map normal1 [0..<k])
        = map (\<lambda>i. Some (- normal0 i)) [0..<k]"
proof -
  have len: "length (correlate r (map normal0 [0..<k]) (map normal1 [0..<k])) = k" for r
    by (simp add: correlate_def)
  have gen: "correlate r (map normal0 [0..<k]) (map normal1 [0..<k]) =
     map (\<lambda>i. if \<bar>r\<bar> \<le> 1
              then Some (r * normal0 i + sqrt (1 - r\<^sup>2) * normal1 i) else None) [0..<k]" for r
    by (rule nth_equalityI) (simp_all add: len correlate_nth)
  show ?thesis
    by (simp add: gen)
qed

text \<open>
  Claim C8. In the path that \<open>simulate_heston\<close> returns, every step \<open>t\<close> with
  \<open>1 \<le> t < m\<close> drives the asset with the asset shock \<open>w0[t-1]\<close> and the variance with
  \<open>w1[t-1] = rho*w0[t-1] + sqrt(1 - rho^2)*aux[t-1]\<close>, built from that same asset shock
  and the auxiliary sample (\<open>nan\<close> when \<open>rho\<close> is outside \<open>[-1, 1]\<close>). For \<open>rho = 1\<close> the
  variance shock of every step is the asset shock \<open>w0[t-1]\<close>, for \<open>rho = -1\<close> it is
  \<open>-w0[t-1]\<close>.
\<close>

theorem simulate_heston_shocks:
  assumes "params ''mu'' = Some mu" "params ''kappa'' = Some kappa"
    "params ''theta'' = Some theta" "params ''sigma'' = Some sigma" "params ''rho'' = Some rho"
    "params ''s0'' = Some s0" "params ''v0'' = Some v0"
    and "simulate_heston params time_grid normal0 normal1 = Inr df"
  shows "\<forall>t. 1 \<le> t \<and> t < length time_grid \<longrightarrow>
           S0 df ! t = euler_S mu (S0 df ! (t - 1)) (Var0 df ! (t - 1)) (normal0 (t - 1))
         \<and> Var0 df ! t = milstein_V kappa theta sigma (Var0 df ! (t - 1))
               (if \<bar>rho\<bar> \<le> 1
                then Some (rho * normal0 (t - 1) + sqrt (1 - rho\<^sup>2) * normal1 (t - 1))
                else None)
         \<and> (rho = 1 \<longrightarrow>
               Var0 df ! t = milstein_V kappa theta sigma (Var0 df ! (t - 1))
                               (Some (normal0 (t - 1))))
         \<and> (rho = - 1 \<longrightarrow>
               Var0 df ! t = milstein_V kappa theta sigma (Var0 df ! (t - 1))
                               (Some (- normal0 (t - 1))))"
proof (intro allI impI)
  fix t assume t: "1 \<le> t \<and> t < length time_grid"
  note st = simulate_heston_steps [OF assms]
  have e: "S0 df ! t = euler_S mu (S0 df ! (t - 1)) (Var0 df ! (t - 1)) (normal0 (t - 1))"
    and m: "Var0 df ! t = milstein_V kappa theta sigma (Var0 df ! (t - 1))
               (if \<bar>rho\<bar> \<le> 1
                then Some (rho * normal0 (t - 1) + sqrt (1 - rho\<^sup>2) * normal1 (t - 1))
                else None)"
    using st t by blast+
  have p: "rho = 1 \<Longrightarrow> Var0 df ! t = milstein_V kappa theta sigma (Var0 df ! (t - 1))
                               (Some (normal0 (t - 1)))"
    using m by simp
  have n: "rho = - 1 \<Longrightarrow> Var0 df ! t = milstein_V kappa theta sigma (Var0 df ! (t - 1))
                               (Some (- normal0 (t - 1)))"
    using m by simp
  show "S0 df ! t = euler_S mu (S0 df ! (t - 1)) (Var0 df ! (t - 1)) (normal0 (t - 1))
         \<and> Var0 df ! t = milstein_V kappa theta sigma (Var0 df ! (t - 1))
               (if \<bar>rho\<bar> \<le> 1
                then Some (rho * normal0 (t - 1) + sqrt (1 - rho\<^sup>2) * normal1 (t - 1))
                else None)
         \<and> (rho = 1 \<longrightarrow>
               Var0 df ! t = milstein_V kappa theta sigma (Var0 df ! (t - 1))
                               (Some (normal0 (t - 1))))
         \<and> (rho = - 1 \<longrightarrow>
               Var0 df ! t = milstein_V kappa theta sigma (Var0 df ! (t - 1))
                               (Some (- normal0 (t - 1))))"
    using e m p n by blast
qed

lemma mirrored_keys:
  "mirrored_params ''mu'' = Some 0" "mirrored_params ''kappa'' = Some 1"
  "mirrored_params ''theta'' = Some 253" "mirrored_params ''sigma'' = Some 506"
  "mirrored_params ''rho'' = Some (- 1)" "mirrored_params ''s0'' = Some 100"
  "mirrored_params ''v0'' = Some 253"
  by (simp_all add: mirrored_params_def)

lemma mirrored_run:
  "simulate_heston mirrored_params [0, 1 :: nat] undershoot_normal0 undershoot_normal1 =
     Inr \<lparr>index = [0, 1], S0 = [Some 100, Some 0], Var0 = [Some 253, Some 759]\<rparr>"
  by (simp add: simulate_heston_def mirrored_params_def undershoot_normal0_def
        undershoot_normal1_def Let_def correlate_def np_sqrt_def loop_body_def euler_S_def
        milstein_V_def dt_def day_count_def upt_rec numeral_2_eq_2)

text \<open>
  Step 1 of two concrete runs: with \<open>rho = 1\<close> the variance moves from 253 to \<open>-253\<close>
  under the asset shock \<open>-1\<close>, with \<open>rho = -1\<close> it moves to 759 under the shock \<open>1\<close>.
\<close>

theorem simulate_heston_shocks_witness:
  "simulate_heston undershoot_params [0, 1, 2 :: nat] undershoot_normal0 undershoot_normal1 =
     Inr \<lparr>index = [0, 1, 2], S0 = [Some 100, Some 0, None],
          Var0 = [Some 253, Some (- 253), None]\<rparr>
   \<and> [Some 253, Some (- 253), None] ! 1
        = milstein_V 1 253 506 (Some 253) (Some (undershoot_normal0 0))
   \<and> simulate_heston mirrored_params [0, 1 :: nat] undershoot_normal0 undershoot_normal1 =
       Inr \<lparr>index = [0, 1], S0 = [Some 100, Some 0], Var0 = [Some 253, Some 759]\<rparr>
   \<and> [Some 253, Some 759] ! 1
        = milstein_V 1 253 506 (Some 253) (Some (- undershoot_normal0 0))
   \<and> [Some 100, Some (0 :: real)] ! 1
        = euler_S 0 (Some 100) (Some 253) (undershoot_normal0 0)"
proof -
  note u = simulate_heston_shocks [OF undershoot_keys undershoot_run, rule_format, of 1]
  note m = simulate_heston_shocks [OF mirrored_keys mirrored_run, rule_format, of 1]
  show ?thesis
    using undershoot_run mirrored_run u m by simp
qed

lemma invalid_keys:
  "invalid_params ''mu'' = Some 0 \<and> invalid_params ''kappa'' = Some 1
   \<and> invalid_params ''theta'' = Some 253 \<and> invalid_params ''sigma'' = Some (- 1)
   \<and> invalid_params ''rho'' = Some 5 \<and> invalid_params ''s0'' = Some 100
   \<and> invalid_params ''v0'' = Some 253"
  by (simp add: invalid_params_def)

lemma invalid_run:
  "simulate_heston invalid_params [0, 1 :: nat] undershoot_normal0 undershoot_normal1 =
     Inr \<lparr>index = [0, 1], S0 = [Some 100, Some 0], Var0 = [Some 253, None]\<rparr>"
  by (simp add: simulate_heston_def invalid_params_def undershoot_normal0_def
        undershoot_normal1_def Let_def correlate_def np_sqrt_def loop_body_def euler_S_def
        milstein_V_def dt_def day_count_def upt_rec numeral_2_eq_2)

text \<open>
  Claim C9 as stated fails: the constructor accepts \<open>sigma = 0\<close> and \<open>rho = 5\<close> and
  returns the object; \<open>simulate_heston\<close> accepts \<open>sigma = -1\<close> and \<open>rho = 5\<close> and returns a
  path, whose variance is \<open>nan\<close> from step 1 on.
\<close>

theorem parameters_unchecked_counterexample:
  "init 2 0.04 0 5 0.01
     = Inr \<lparr>self_kappa = 2, self_theta = 0.04, self_sigma = 0, self_rho = 5, self_r = 0.01\<rparr>
   \<and> simulate_heston invalid_params [0, 1 :: nat] undershoot_normal0 undershoot_normal1 =
       Inr \<lparr>index = [0, 1], S0 = [Some 100, Some 0], Var0 = [Some 253, None]\<rparr>"
  using invalid_run by (simp add: init_def)

text \<open>
  Claim C9, as the code has it. Neither entry point validates the model parameters: the
  constructor stores the five values it is given and always returns the object;
  \<open>simulate_heston\<close>, given all seven keys and a non-empty grid, returns a path whatever
  the values are, and for \<open>rho\<close> outside \<open>[-1, 1]\<close> on a grid of at least two points the
  variance at step 1 is \<open>nan\<close>.
\<close>

theorem parameters_unchecked:
  "init kappa theta sigma rho r
     = Inr \<lparr>self_kappa = kappa, self_theta = theta, self_sigma = sigma, self_rho = rho,
            self_r = r\<rparr>
   \<and> (params ''mu'' = Some mu \<and> params ''kappa'' = Some kappa \<and> params ''theta'' = Some theta
        \<and> params ''sigma'' = Some sigma \<and> params ''rho'' = Some rho \<and> params ''s0'' = Some s0
        \<and> params ''v0'' = Some v0 \<and> time_grid \<noteq> [] \<longrightarrow>
        (\<exists>df. simulate_heston params time_grid normal0 normal1 = Inr df))
   \<and> (params ''mu'' = Some mu \<and> params ''kappa'' = Some kappa \<and> params ''theta'' = Some theta
        \<and> params ''sigma'' = Some sigma \<and> params ''rho'' = Some rho \<and> params ''s0'' = Some s0
        \<and> params ''v0'' = Some v0 \<and> 2 \<le> length time_grid \<and> 1 < \<bar>rho\<bar> \<longrightarrow>
        map_sum id (\<lambda>df. Var0 df ! 1) (simulate_heston params time_grid normal0 normal1)
          = Inr None)"
proof (intro conjI impI)
  show "init kappa theta sigma rho r
     = Inr \<lparr>self_kappa = kappa, self_theta = theta, self_sigma = sigma, self_rho = rho,
            self_r = r\<rparr>"
    by (simp add: init_def)
next
  assume "params ''mu'' = Some mu \<and> params ''kappa'' = Some kappa \<and> params ''theta'' = Some theta
        \<and> params ''sigma'' = Some sigma \<and> params ''rho'' = Some rho \<and> params ''s0'' = Some s0
        \<and> params ''v0'' = Some v0 \<and> time_grid \<noteq> []"
  then show "\<exists>df. simulate_heston params time_grid normal0 normal1 = Inr df"
    using simulate_heston_Inr [of params mu kappa theta sigma rho s0 v0 time_grid normal0 normal1]
    by blast
next
  assume a: "params ''mu'' = Some mu \<and> params ''kappa'' = Some kappa \<and> params ''theta'' = Some theta
        \<and> params ''sigma'' = Some sigma \<and> params ''rho'' = Some rho \<and> params ''s0'' = Some s0
        \<and> params ''v0'' = Some v0 \<and> 2 \<le> length time_grid \<and> 1 < \<bar>rho\<bar>"
  then have ne: "time_grid \<noteq> []" by auto
  obtain df where df: "simulate_heston params time_grid normal0 normal1 = Inr df"
    using simulate_heston_Inr [of params mu kappa theta sigma rho s0 v0 time_grid normal0 normal1]
      a ne by blast
  have "Var0 df ! 1 = milstein_V kappa theta sigma (Var0 df ! (1 - 1)) None"
    using simulate_heston_steps [of params mu kappa theta sigma rho s0 v0 time_grid normal0 normal1 df]
      a df by auto
  also have "\<dots> = None"
    by (simp add: milstein_V_def split: Option.bind_splits)
  finally show "map_sum id (\<lambda>df. Var0 df ! 1) (simulate_heston params time_grid normal0 normal1)
          = Inr None"
    by (simp add: df)
qed

text \<open>
  The simulator at the parameter set with \<open>sigma = -1\<close> and \<open>rho = 5\<close>.
\<close>

theorem parameters_unchecked_witness:
  "(\<exists>df. simulate_heston invalid_params [0, 1 :: nat] undershoot_normal0 undershoot_normal1 = Inr df)
   \<and> map_sum id (\<lambda>df. Var0 df ! 1)
        (simulate_heston invalid_params [0, 1 :: nat] undershoot_normal0 undershoot_normal1)
       = Inr None"
proof -
  note p = parameters_unchecked [where params = invalid_params and mu = 0 and kappa = 1
      and theta = 253 and sigma = "- 1" and rho = 5 and ?s0.0 = 100 and ?v0.0 = 253
      and time_grid = "[0, 1 :: nat]" and ?normal0.0 = undershoot_normal0
      and ?normal1.0 = undershoot_normal1]
  show ?thesis
    using p [THEN conjunct2, THEN conjunct1] p [THEN conjunct2, THEN conjunct2] invalid_keys
    by simp
qed

section \<open>The characteristic function and the price\<close>

lemma Arg_of_real_pos: "0 < x \<Longrightarrow> Arg (complex_of_real x) = 0"
  by (rule cis_Arg_unique) (simp_all add: sgn_eq)

lemma cmath_log_of_real: "0 < x \<Longrightarrow> cmath_log (complex_of_real x) = Inr (complex_of_real (ln x))"
  by (simp add: cmath_log_def Arg_of_real_pos complex_eq_iff)

lemma cmath_log_1: "cmath_log 1 = Inr 0"
  using cmath_log_of_real [of 1] by simp


text \<open>
  Claim C3. For \<open>kappa > 0\<close>, \<open>sigma > 0\<close> and \<open>s0 > 0\<close>, and any \<open>theta\<close>, \<open>rho\<close>, \<open>r\<close>,
  \<open>v0\<close> and \<open>tau\<close>, \<open>characteristic_func\<close> at \<open>xi = 0\<close> returns 1.
\<close>

theorem characteristic_func_at_zero:
  assumes "0 < self_kappa self" "0 < self_sigma self" "0 < s0"
  shows "characteristic_func self 0 s0 v0 tau = Inr (Some 1)"
proof -
  have d: "csqrt ((complex_of_real (self_kappa self))\<^sup>2) = complex_of_real (self_kappa self)"
    using assms(1) by (intro csqrt_square) simp
  have k2: "complex_of_real (self_kappa self) + complex_of_real (self_kappa self) \<noteq> 0"
    using assms(1) by (simp add: complex_eq_iff)
  show ?thesis
    using assms(2,3) k2
    by (simp add: characteristic_func_def d np_cdiv_def cmath_log_1 cmath_log_of_real Let_def)
qed

text \<open>
  The identity at the benchmark parameters, \<open>s0 = 100\<close>, \<open>v0 = 0.04\<close>, \<open>tau = 1\<close>.
\<close>

theorem characteristic_func_at_zero_witness:
  "characteristic_func benchmark_pricer 0 100 0.04 1 = Inr (Some 1)"
  using characteristic_func_at_zero [of benchmark_pricer 100 "0.04" 1]
  by (simp add: benchmark_pricer_def)

text \<open>
  At \<open>xi = -i\<close> the square root is that of a real square: for \<open>kappa > rho*sigma\<close> the
  characteristic function is the forward price \<open>s0 * exp(r*tau)\<close>.
\<close>

lemma characteristic_func_at_minus_i:
  assumes "self_rho self * self_sigma self < self_kappa self" "self_sigma self \<noteq> 0" "0 < s0"
  shows "characteristic_func self (- \<i>) s0 v0 tau
           = Inr (Some (complex_of_real (s0 * exp (self_r self * tau))))"
proof -
  define a where "a = self_kappa self - self_rho self * self_sigma self"
  have apos: "0 < a" using assms(1) by (simp add: a_def)
  have a: "complex_of_real (self_kappa self)
             - complex_of_real (self_rho self) * complex_of_real (self_sigma self)
           = complex_of_real a"
    by (simp add: a_def)
  have d: "csqrt ((complex_of_real a)\<^sup>2) = complex_of_real a"
    using apos by (intro csqrt_square) simp
  have a2: "complex_of_real a + complex_of_real a \<noteq> 0"
    using apos by (simp add: complex_eq_iff)
  have e: "exp (complex_of_real (self_r self) * complex_of_real tau + complex_of_real (ln s0))
             = complex_of_real (s0 * exp (self_r self * tau))"
    using assms(3) by (simp add: exp_add exp_of_real flip: of_real_mult)
  show ?thesis
    using assms(2,3) a2
    by (simp add: characteristic_func_def a d e np_cdiv_def cmath_log_1 cmath_log_of_real Let_def)
qed

lemma characteristic_func_nonzero:
  "characteristic_func self xi s0 v0 tau = Inr (Some c) \<Longrightarrow> c \<noteq> 0"
  by (auto simp: characteristic_func_def Let_def split: if_splits sum.splits option.splits Option.bind_splits)


text \<open>
  The value of \<open>characteristic_func\<close> when no division meets a zero divisor: the
  exponential of \<open>C + D*v0 + i*xi*ln(s0)\<close>.
\<close>

lemma characteristic_func_finite:
  fixes self :: ComputeHeston and xi :: complex and s0 v0 tau :: real
  defines "a \<equiv> complex_of_real (self_kappa self)
                  - \<i> * xi * complex_of_real (self_rho self) * complex_of_real (self_sigma self)"
  defines "d \<equiv> csqrt (a\<^sup>2 + (complex_of_real (self_sigma self))\<^sup>2 * (\<i> * xi + xi\<^sup>2))"
  defines "ee \<equiv> exp (- d * complex_of_real tau)"
  defines "g \<equiv> (a - d) / (a + d)"
  assumes sig: "self_sigma self \<noteq> 0" and ad: "a + d \<noteq> 0" and g1: "g \<noteq> 1"
    and ge: "g * ee \<noteq> 1" and s0: "0 < s0"
  shows "characteristic_func self xi s0 v0 tau =
     Inr (Some (exp (\<i> * xi * complex_of_real (self_r self) * complex_of_real tau
                     + complex_of_real (self_kappa self * self_theta self / (self_sigma self)\<^sup>2)
                         * ((a - d) * complex_of_real tau
                            - 2 * Complex (ln (cmod ((1 - g * ee) / (1 - g))))
                                          (Arg ((1 - g * ee) / (1 - g))))
                     + (a - d) / complex_of_real ((self_sigma self)\<^sup>2)
                         * ((1 - ee) / (1 - g * ee)) * complex_of_real v0
                     + \<i> * xi * complex_of_real (ln s0))))"
proof -
  have gq: "np_cdiv (a - d) (a + d) = Some g"
    using ad by (simp add: np_cdiv_def g_def)
  have n1: "1 - g * ee \<noteq> 0" and n2: "1 - g \<noteq> 0" using g1 ge by simp_all
  have q: "np_cdiv (1 - g * ee) (1 - g) = Some ((1 - g * ee) / (1 - g))"
    using n2 by (simp add: np_cdiv_def)
  have lg: "cmath_log ((1 - g * ee) / (1 - g))
              = Inr (Complex (ln (cmod ((1 - g * ee) / (1 - g)))) (Arg ((1 - g * ee) / (1 - g))))"
    using n1 n2 by (simp add: cmath_log_def)
  have w: "np_cdiv (1 - ee) (1 - g * ee) = Some ((1 - ee) / (1 - g * ee))"
    using n1 by (simp add: np_cdiv_def)
  have sig2: "(self_sigma self)\<^sup>2 \<noteq> 0" using sig by simp
  have "characteristic_func self xi s0 v0 tau =
     (if (self_sigma self)\<^sup>2 = 0 then Inl ZeroDivisionError
         else
           (case (case do { g' \<leftarrow> np_cdiv (a - d) (a + d); np_cdiv (1 - g' * ee) (1 - g') } of
                    None \<Rightarrow> Inr None
                  | Some q \<Rightarrow> map_sum id Some (cmath_log q)) of
              Inl e \<Rightarrow> Inl e
            | Inr lg \<Rightarrow>
                (case cmath_log (of_real s0) of
                      Inl e \<Rightarrow> Inl e
                    | Inr ls \<Rightarrow>
                        Inr (do { c \<leftarrow> do { l \<leftarrow> lg;
                              Some (\<i> * xi * of_real (self_r self) * of_real tau
                                    + of_real (self_kappa self * self_theta self / (self_sigma self)\<^sup>2)
                                        * ((a - d) * of_real tau - 2 * l)) };
                                  dd \<leftarrow> do { g' \<leftarrow> np_cdiv (a - d) (a + d);
                                       w \<leftarrow> np_cdiv (1 - ee) (1 - g' * ee);
                              Some ((a - d) / of_real ((self_sigma self)\<^sup>2) * w) };
                                  Some (exp (c + dd * of_real v0 + \<i> * xi * ls)) }))))"
    unfolding characteristic_func_def Let_def a_def d_def ee_def by (rule refl)
  also have "\<dots> = Inr (Some (exp (\<i> * xi * complex_of_real (self_r self) * complex_of_real tau
                     + complex_of_real (self_kappa self * self_theta self / (self_sigma self)\<^sup>2)
                         * ((a - d) * complex_of_real tau
                            - 2 * Complex (ln (cmod ((1 - g * ee) / (1 - g))))
                                          (Arg ((1 - g * ee) / (1 - g))))
                     + (a - d) / complex_of_real ((self_sigma self)\<^sup>2)
                         * ((1 - ee) / (1 - g * ee)) * complex_of_real v0
                     + \<i> * xi * complex_of_real (ln s0))))"
    unfolding gq
    by (simp only: sig2 if_False Option.bind.simps q option.case lg map_sum.simps id_apply
          sum.case w cmath_log_of_real [OF s0])
  finally show ?thesis .
qed

lemma damped_ratio_neq_1:
  assumes "cmod g < 1" "0 \<le> Re d"
  shows "g * exp (- d * complex_of_real 1) \<noteq> 1"
proof -
  have "cmod (g * exp (- d * complex_of_real 1)) = cmod g * exp (- Re d)"
    by (simp add: norm_mult)
  also have "\<dots> \<le> cmod g * 1"
    using assms(2) by (intro mult_left_mono) simp_all
  also have "\<dots> < 1" using assms(1) by simp
  finally show ?thesis by auto
qed

lemma characteristic_func_flat:
  assumes z: "4 + 9 * (\<i> * xi + xi\<^sup>2) = d\<^sup>2" and re: "0 < Re d"
    and g: "cmod ((2 - d) / (2 + d)) < 1"
  shows "characteristic_func flat_pricer xi 1 0 1 = Inr (Some 1)"
proof -
  have a: "complex_of_real (self_kappa flat_pricer)
             - \<i> * xi * complex_of_real (self_rho flat_pricer) * complex_of_real (self_sigma flat_pricer)
           = 2"
    by (simp add: flat_pricer_def)
  have d: "csqrt (2\<^sup>2 + (complex_of_real (self_sigma flat_pricer))\<^sup>2 * (\<i> * xi + xi\<^sup>2)) = d"
  proof -
    have "2\<^sup>2 + (complex_of_real (self_sigma flat_pricer))\<^sup>2 * (\<i> * xi + xi\<^sup>2) = d\<^sup>2"
      using z by (simp add: flat_pricer_def)
    then show ?thesis using csqrt_square [of d] re by simp
  qed
  have ad: "2 + d \<noteq> 0"
    using re by (auto simp: complex_eq_iff)
  have g1: "(2 - d) / (2 + d) \<noteq> 1"
    using g by auto
  have ge: "(2 - d) / (2 + d) * exp (- d * complex_of_real 1) \<noteq> 1"
    using g re by (intro damped_ratio_neq_1) simp_all
  have sig: "self_sigma flat_pricer \<noteq> 0" by (simp add: flat_pricer_def)
  note cf = characteristic_func_finite [where self = flat_pricer and xi = xi and ?s0.0 = 1
      and ?v0.0 = 0 and tau = 1, unfolded a d, OF sig ad g1 ge zero_less_one]
  show ?thesis
    using cf by (simp add: flat_pricer_def)
qed

lemma flat_at_node: "characteristic_func flat_pricer (complex_of_real (2 / 3)) 1 0 1 = Inr (Some 1)"
proof (rule characteristic_func_flat [where d = "Complex 3 1"])
  show "4 + 9 * (\<i> * complex_of_real (2 / 3) + (complex_of_real (2 / 3))\<^sup>2) = (Complex 3 1)\<^sup>2"
    by (simp add: complex_eq_iff power2_eq_square)
  show "0 < Re (Complex 3 1)" by simp
  have "2 - Complex 3 1 = Complex (- 1) (- 1)" "2 + Complex 3 1 = Complex 5 1"
    by (simp_all add: complex_eq_iff)
  then have "cmod ((2 - Complex 3 1) / (2 + Complex 3 1)) = sqrt 2 / sqrt 26"
    by (simp only: norm_divide complex_norm) (simp add: power2_eq_square)
  also have "\<dots> < 1" by simp
  finally show "cmod ((2 - Complex 3 1) / (2 + Complex 3 1)) < 1" .
qed

lemma flat_at_shifted_node:
  "characteristic_func flat_pricer (complex_of_real (2 / 3) - \<i>) 1 0 1 = Inr (Some 1)"
proof (rule characteristic_func_flat [where d = "Complex 3 (- 1)"])
  show "4 + 9 * (\<i> * (complex_of_real (2 / 3) - \<i>) + (complex_of_real (2 / 3) - \<i>)\<^sup>2)
          = (Complex 3 (- 1))\<^sup>2"
    by (simp add: complex_eq_iff power2_eq_square)
  show "0 < Re (Complex 3 (- 1))" by simp
  have "2 - Complex 3 (- 1) = Complex (- 1) 1" "2 + Complex 3 (- 1) = Complex 5 (- 1)"
    by (simp_all add: complex_eq_iff)
  then have "cmod ((2 - Complex 3 (- 1)) / (2 + Complex 3 (- 1))) = sqrt 2 / sqrt 26"
    by (simp only: norm_divide complex_norm) (simp add: power2_eq_square)
  also have "\<dots> < 1" by simp
  finally show "cmod ((2 - Complex 3 (- 1)) / (2 + Complex 3 (- 1))) < 1" .
qed

lemma flat_at_minus_i:
  "characteristic_func flat_pricer (- \<i>) 1 0 1 = Inr (Some 1)"
  using characteristic_func_at_minus_i [of flat_pricer 1 0 1]
  by (simp add: flat_pricer_def)

lemma integ_func_1:
  assumes "xi \<noteq> 0" "0 < K"
    and "characteristic_func self (complex_of_real xi - \<i>) s0 v0 tau = Inr (Some c1)"
    and "characteristic_func self (- \<i>) s0 v0 tau = Inr (Some c0)"
  shows "integ_func self xi s0 v0 K tau 1 =
           Inr (Some (Re (c1 / (\<i> * complex_of_real xi * c0)
                          * exp (- \<i> * complex_of_real xi * complex_of_real (ln K)))))"
  using assms characteristic_func_nonzero [OF assms(4)]
  by (simp add: integ_func_def Let_def cmath_log_of_real)

lemma integ_func_2:
  assumes "xi \<noteq> 0" "0 < K"
    and "characteristic_func self (complex_of_real xi) s0 v0 tau = Inr (Some c2)"
  shows "integ_func self xi s0 v0 K tau 2 =
           Inr (Some (Re (c2 / (\<i> * complex_of_real xi)
                          * exp (- \<i> * complex_of_real xi * complex_of_real (ln K)))))"
  using assms by (simp add: integ_func_def Let_def cmath_log_of_real)

lemma h_formula:
  assumes "xi \<noteq> 0" "0 < K"
    and "characteristic_func self (complex_of_real xi - \<i>) s0 v0 tau = Inr (Some c1)"
    and "characteristic_func self (- \<i>) s0 v0 tau = Inr (Some c0)"
    and "characteristic_func self (complex_of_real xi) s0 v0 tau = Inr (Some c2)"
  shows "h self s0 v0 K tau xi =
           Inr (Some (s0 * Re (c1 / (\<i> * complex_of_real xi * c0)
                               * exp (- \<i> * complex_of_real xi * complex_of_real (ln K)))
                      - K * exp (- self_r self * tau)
                          * Re (c2 / (\<i> * complex_of_real xi)
                                * exp (- \<i> * complex_of_real xi * complex_of_real (ln K)))))"
  unfolding h_def integ_func_1 [OF assms(1-4)] integ_func_2 [OF assms(1,2,5)] by simp




text \<open>
  Claim C1. For \<open>K > 0\<close>, when the quadrature routine returns the number \<open>integral\<close> for
  the integrand \<open>h\<close> over the bounds 0 and 500, \<open>call_price\<close> returns
  \<open>0.5*(s0 - K*exp(-r*tau)) + (1/pi)*integral\<close>, with nothing added for the part of the
  integral above 500; and at every \<open>xi \<noteq> 0\<close> where the three values of the
  characteristic function are numbers, the integrand is
  \<open>s0*Re[CF(xi - i)/(i*xi*CF(-i)) * exp(-i*xi*ln K)]
     - K*exp(-r*tau)*Re[CF(xi)/(i*xi) * exp(-i*xi*ln K)]\<close>.
\<close>

theorem call_price_formula:
  assumes "0 < K" and "quad (h self s0 v0 K tau) 0 500 = Inr (Some integral)"
  shows "call_price quad self s0 v0 K tau =
           Inr (Some (0.5 * (s0 - K * exp (- self_r self * tau)) + 1 / pi * integral))
       \<and> (\<forall>xi c1 c0 c2.
             xi \<noteq> 0
           \<and> characteristic_func self (complex_of_real xi - \<i>) s0 v0 tau = Inr (Some c1)
           \<and> characteristic_func self (- \<i>) s0 v0 tau = Inr (Some c0)
           \<and> characteristic_func self (complex_of_real xi) s0 v0 tau = Inr (Some c2) \<longrightarrow>
             h self s0 v0 K tau xi =
               Inr (Some (s0 * Re (c1 / (\<i> * complex_of_real xi * c0)
                                   * exp (- \<i> * complex_of_real xi * complex_of_real (ln K)))
                          - K * exp (- self_r self * tau)
                              * Re (c2 / (\<i> * complex_of_real xi)
                                    * exp (- \<i> * complex_of_real xi * complex_of_real (ln K))))))"
proof (intro conjI allI impI)
  show "call_price quad self s0 v0 K tau =
           Inr (Some (0.5 * (s0 - K * exp (- self_r self * tau)) + 1 / pi * integral))"
    using assms(2) by (simp add: call_price_def quad_bounds_def)
next
  fix xi c1 c0 c2
  assume "xi \<noteq> 0
           \<and> characteristic_func self (complex_of_real xi - \<i>) s0 v0 tau = Inr (Some c1)
           \<and> characteristic_func self (- \<i>) s0 v0 tau = Inr (Some c0)
           \<and> characteristic_func self (complex_of_real xi) s0 v0 tau = Inr (Some c2)"
  then show "h self s0 v0 K tau xi =
               Inr (Some (s0 * Re (c1 / (\<i> * complex_of_real xi * c0)
                                   * exp (- \<i> * complex_of_real xi * complex_of_real (ln K)))
                          - K * exp (- self_r self * tau)
                              * Re (c2 / (\<i> * complex_of_real xi)
                                    * exp (- \<i> * complex_of_real xi * complex_of_real (ln K)))))"
    using h_formula [OF _ assms(1)] by blast
qed

lemma flat_h_at_node:
  "h flat_pricer 1 0 2 1 (2 / 3) =
     Inr (Some (1 * Re (1 / (\<i> * complex_of_real (2 / 3) * 1)
                        * exp (- \<i> * complex_of_real (2 / 3) * complex_of_real (ln 2)))
                - 2 * exp (- self_r flat_pricer * 1)
                    * Re (1 / (\<i> * complex_of_real (2 / 3))
                          * exp (- \<i> * complex_of_real (2 / 3) * complex_of_real (ln 2)))))"
  by (rule h_formula [OF _ _ flat_at_shifted_node flat_at_minus_i flat_at_node]) simp_all

lemma flat_quadrature:
  "rectangle_rule (1 / 750) (h flat_pricer 1 0 2 1) 0 500 =
     Inr (Some (500 * (1 * Re (1 / (\<i> * complex_of_real (2 / 3) * 1)
                        * exp (- \<i> * complex_of_real (2 / 3) * complex_of_real (ln 2)))
                - 2 * exp (- self_r flat_pricer * 1)
                    * Re (1 / (\<i> * complex_of_real (2 / 3))
                          * exp (- \<i> * complex_of_real (2 / 3) * complex_of_real (ln 2))))))"
proof -
  have node: "0 + 1 / 750 * (500 - 0) = (2 / 3 :: real)" by simp
  show ?thesis
    unfolding rectangle_rule_def node flat_h_at_node by simp
qed

text \<open>
  The formula at \<open>kappa = 2\<close>, \<open>theta = 0\<close>, \<open>sigma = 3\<close>, \<open>rho = 0\<close>, \<open>r = 0\<close>, \<open>s0 = 1\<close>,
  \<open>v0 = 0\<close>, \<open>K = 2\<close>, \<open>tau = 1\<close>, with the one-node rule that samples \<open>xi = 2/3\<close>; there
  the three values of the characteristic function are 1.
\<close>

theorem call_price_formula_witness:
  "call_price (rectangle_rule (1 / 750)) flat_pricer 1 0 2 1 =
     Inr (Some (0.5 * (1 - 2 * exp (- self_r flat_pricer * 1)) + 1 / pi *
       (500 * (1 * Re (1 / (\<i> * complex_of_real (2 / 3) * 1)
                        * exp (- \<i> * complex_of_real (2 / 3) * complex_of_real (ln 2)))
                - 2 * exp (- self_r flat_pricer * 1)
                    * Re (1 / (\<i> * complex_of_real (2 / 3))
                          * exp (- \<i> * complex_of_real (2 / 3) * complex_of_real (ln 2)))))))
   \<and> h flat_pricer 1 0 2 1 (2 / 3) =
       Inr (Some (1 * Re (1 / (\<i> * complex_of_real (2 / 3) * 1)
                        * exp (- \<i> * complex_of_real (2 / 3) * complex_of_real (ln 2)))
                - 2 * exp (- self_r flat_pricer * 1)
                    * Re (1 / (\<i> * complex_of_real (2 / 3))
                          * exp (- \<i> * complex_of_real (2 / 3) * complex_of_real (ln 2)))))"
proof -
  have K: "0 < (2 :: real)" by simp
  note f = call_price_formula [where quad = "rectangle_rule (1 / 750)" and self = flat_pricer
      and ?s0.0 = 1 and ?v0.0 = 0 and K = 2 and tau = 1, OF K flat_quadrature]
  have node: "(2 / 3 :: real) \<noteq> 0" by simp
  show ?thesis
    using f [THEN conjunct1]
      f [THEN conjunct2, rule_format, of "2 / 3" 1 1 1]
      node flat_at_shifted_node flat_at_minus_i flat_at_node
    by blast
qed





section \<open>The table wrappers and the finite differences\<close>

lemma iterrows_snoc:
  "iterrows body (xs @ [x]) st =
     (case iterrows body xs st of
        (st', None) \<Rightarrow> body x st'
      | (st', Some e) \<Rightarrow> (st', Some e))"
  by (induction xs arbitrary: st) (auto split: prod.splits option.splits)

lemma cell_set_loc_same: "cell (set_loc df ix c v) ix c = Some v"
  by (simp add: cell_def set_loc_def)

lemma cell_set_loc_other_row:
  "i \<noteq> ix \<Longrightarrow> cell df i c = Some x \<Longrightarrow> cell (set_loc df ix c v) i c = Some x"
  by (auto simp: cell_def set_loc_def)

lemma cell_set_loc_other_column:
  "c' \<noteq> c \<Longrightarrow> cell (set_loc df ix c v) i c' = cell df i c'"
  by (simp add: cell_def set_loc_def)

lemma nrows_set_loc [simp]: "nrows (set_loc df ix c v) = nrows df"
  by (simp add: set_loc_def)

lemma quotes_cells:
  "i < length qs \<Longrightarrow> qs ! i = (s, var, k, tau) \<Longrightarrow>
     cell (quotes qs) i ''S0'' = Some (Some s) \<and> cell (quotes qs) i ''Var0'' = Some (Some var)
   \<and> cell (quotes qs) i ''K'' = Some (Some k) \<and> cell (quotes qs) i ''tau0'' = Some (Some tau)"
  by (simp add: quotes_def cell_def)

lemma hs_price_1M_ATM_row_ok:
  assumes "hs_price_1M_ATM_row df pricer s_name var_name tau_name v_name ix st = (st', None)"
  shows "\<exists>s var k tau p.
           cell df ix s_name = Some s \<and> cell df ix var_name = Some var
         \<and> cell df ix ''K'' = Some k \<and> cell df ix tau_name = Some tau
         \<and> price st' = Some p
         \<and> cell (frame st') ix v_name = Some p
         \<and> (\<forall>i x. i \<noteq> ix \<and> cell (frame st) i v_name = Some x \<longrightarrow>
               cell (frame st') i v_name = Some x)
         \<and> (if np_less tau 0.0039 then price st = Some p \<and> calls st' = calls st
             else pricer s var k tau = Inr p \<and> calls st' = calls st @ [(s, var, k, tau)])"
  using assms
  by (auto simp: hs_price_1M_ATM_row_def cell_set_loc_same cell_set_loc_other_row
           split: option.splits if_splits sum.splits prod.splits)

text \<open>
  The loop of \<open>hs_price_1M_ATM_wrapper\<close> after \<open>n\<close> rows without an exception: the rows
  from \<open>n\<close> on are untouched, the local \<open>price\<close>, once bound, is the price computed for an
  earlier row, and every row before \<open>n\<close> holds in the output column the value of \<open>price\<close>
  at its turn.
\<close>

lemma hs_price_1M_ATM_run:
  assumes "iterrows (hs_price_1M_ATM_row df pricer s_name var_name tau_name v_name) [0..<n]
           \<lparr>frame = df, price = None, calls = []\<rparr> = (st, None)"
  shows "(\<forall>p. price st = Some p \<longrightarrow>
             (\<exists>j<n. \<exists>s var k tau.
                 cell df j s_name = Some s \<and> cell df j var_name = Some var
               \<and> cell df j ''K'' = Some k \<and> cell df j tau_name = Some tau
               \<and> \<not> np_less tau 0.0039 \<and> pricer s var k tau = Inr p))
       \<and> (\<forall>i<n. \<exists>p. cell (frame st) i v_name = Some p
             \<and> (\<forall>tau_i. cell df i tau_name = Some tau_i \<and> np_less tau_i 0.0039 \<longrightarrow>
                   (\<exists>j<i. \<exists>s var k tau.
                       cell df j s_name = Some s \<and> cell df j var_name = Some var
                     \<and> cell df j ''K'' = Some k \<and> cell df j tau_name = Some tau
                     \<and> \<not> np_less tau 0.0039 \<and> pricer s var k tau = Inr p)))"
  using assms
proof (induction n arbitrary: st)
  case 0
  then show ?case by auto
next
  case (Suc n)
  let ?body = "hs_price_1M_ATM_row df pricer s_name var_name tau_name v_name"
  let ?st0 = "\<lparr>frame = df, price = None, calls = []\<rparr>"
  let ?priced = "\<lambda>j p. \<exists>s var k tau.
                 cell df j s_name = Some s \<and> cell df j var_name = Some var
               \<and> cell df j ''K'' = Some k \<and> cell df j tau_name = Some tau
               \<and> \<not> np_less tau 0.0039 \<and> pricer s var k tau = Inr p"
  have upt: "[0..<Suc n] = [0..<n] @ [n]" by simp
  obtain st1 where prev: "iterrows ?body [0..<n] ?st0 = (st1, None)"
    and last: "?body n st1 = (st, None)"
    using Suc.prems unfolding upt iterrows_snoc
    by (auto split: prod.splits option.splits)
  note ih = Suc.IH [OF prev]
  have IH: "\<And>p. price st1 = Some p \<Longrightarrow> \<exists>j<n. ?priced j p"
    "\<And>i. i < n \<Longrightarrow> \<exists>p. cell (frame st1) i v_name = Some p
             \<and> (\<forall>tau_i. cell df i tau_name = Some tau_i \<and> np_less tau_i 0.0039 \<longrightarrow>
                   (\<exists>j<i. ?priced j p))"
    using ih [THEN conjunct1, rule_format] ih [THEN conjunct2, rule_format]
    by blast+
  have "\<exists>s var k tau p.
      cell df n s_name = Some s \<and> cell df n var_name = Some var
    \<and> cell df n ''K'' = Some k \<and> cell df n tau_name = Some tau
    \<and> price st = Some p
    \<and> cell (frame st) n v_name = Some p
    \<and> (\<forall>i x. i \<noteq> n \<and> cell (frame st1) i v_name = Some x \<longrightarrow>
          cell (frame st) i v_name = Some x)
    \<and> (if np_less tau 0.0039 then price st1 = Some p
         else pricer s var k tau = Inr p)"
    using hs_price_1M_ATM_row_ok [OF last]
    by (elim exE conjE, intro exI conjI) (auto split: if_splits)
  then obtain s var k tau p where step:
    "cell df n s_name = Some s" "cell df n var_name = Some var"
    "cell df n ''K'' = Some k" "cell df n tau_name = Some tau"
    "price st = Some p"
    "cell (frame st) n v_name = Some p"
    "\<forall>i x. i \<noteq> n \<and> cell (frame st1) i v_name = Some x \<longrightarrow>
          cell (frame st) i v_name = Some x"
    "if np_less tau 0.0039 then price st1 = Some p
     else pricer s var k tau = Inr p"
    by blast
  have pr: "\<exists>j<Suc n. ?priced j p"
  proof (cases "np_less tau 0.0039")
    case True
    then have "price st1 = Some p" using step(8) by simp
    then obtain j where "j < n" "?priced j p" using IH(1) by blast
    then show ?thesis using less_Suc_eq by blast
  next
    case False
    then have "?priced n p" using step by auto
    then show ?thesis by blast
  qed
  have near: "\<exists>j<n. ?priced j p" if "cell df n tau_name = Some tau_i" "np_less tau_i 0.0039" for tau_i
  proof -
    have "tau_i = tau" using that(1) step(4) by simp
    then have "price st1 = Some p" using step(8) that(2) by simp
    then show ?thesis using IH(1) by blast
  qed
  show ?case
  proof (intro conjI allI impI)
    fix q assume "price st = Some q"
    then have "q = p" using step(5) by simp
    then show "\<exists>j<Suc n. ?priced j q" using pr by simp
  next
    fix i assume i: "i < Suc n"
    show "\<exists>p. cell (frame st) i v_name = Some p
             \<and> (\<forall>tau_i. cell df i tau_name = Some tau_i \<and> np_less tau_i 0.0039 \<longrightarrow>
                   (\<exists>j<i. ?priced j p))"
    proof (cases "i = n")
      case True
      then show ?thesis using step(6) near by blast
    next
      case False
      then have "i < n" using i by simp
      then show ?thesis using IH(2)[of i] step(7) False by blast
    qed
  qed
qed

text \<open>
  The sibling wrapper \<open>hs_price_wrapper\<close> at a row with \<open>tau < 0.0039\<close>: it writes the
  intrinsic value, raises nothing and does not call the pricer.
\<close>

lemma hs_price_row_near_expiry:
  assumes "cell df ix ''S0'' = Some s" "cell df ix ''Var0'' = Some var"
    "cell df ix ''tau0'' = Some tau" "cell df ix ''K'' = Some k"
    "np_less tau 0.0039"
  shows "snd (hs_price_row df pricer ix st) = None
       \<and> cell (frame (fst (hs_price_row df pricer ix st))) ix ''V0''
            = Some (np_maximum (np_sub s k) (Some 0))
       \<and> calls (fst (hs_price_row df pricer ix st)) = calls st"
  using assms by (simp add: hs_price_row_def cell_set_loc_same)

text \<open>
  Claim C4, at the input where the code departs from it. On the one-row table
  \<open>S0 = 110\<close>, \<open>Var0 = 0.04\<close>, \<open>K = 100\<close>, \<open>tau0 = 0.001\<close>, with any pricer,
  \<open>hs_price_1M_ATM_wrapper\<close> writes the intrinsic value 10 into the new column, then
  reads the unbound local \<open>price\<close> at line 119 and fails with \<open>UnboundLocalError\<close>: no
  table is returned and no pricer call was made.
\<close>

theorem hs_price_1M_ATM_wrapper_near_expiry_first:
  "hs_price_1M_ATM_wrapper (quotes [(110, 0.04, 100, 0.001)]) pricer
      ''S0'' ''Var0'' ''tau0'' ''V0''
     = (\<lparr>frame = set_loc (quotes [(110, 0.04, 100, 0.001)]) 0 ''V0'' (Some 10),
         price = None, calls = []\<rparr>,
        Some UnboundLocalError)"
proof -
  have row: "cell (quotes [(110, 0.04, 100, 0.001)]) 0 ''S0'' = Some (Some 110)
     \<and> cell (quotes [(110, 0.04, 100, 0.001)]) 0 ''Var0'' = Some (Some 0.04)
     \<and> cell (quotes [(110, 0.04, 100, 0.001)]) 0 ''K'' = Some (Some 100)
     \<and> cell (quotes [(110, 0.04, 100, 0.001)]) 0 ''tau0'' = Some (Some 0.001)"
    by (rule quotes_cells) simp_all
  have n: "nrows (quotes [(110, 0.04, 100, 0.001)]) = 1" by (simp add: quotes_def)
  show ?thesis
    unfolding hs_price_1M_ATM_wrapper_def n
    using row
    by (simp add: hs_price_1M_ATM_row_def np_less_def np_maximum_def np_sub_def)
qed

lemma hs_price_row_ok:
  assumes "hs_price_row df pricer ix st = (st', None)"
  shows "\<exists>s var tau k v.
           cell df ix ''S0'' = Some s \<and> cell df ix ''Var0'' = Some var
         \<and> cell df ix ''tau0'' = Some tau \<and> cell df ix ''K'' = Some k
         \<and> cell (frame st') ix ''V0'' = Some v
         \<and> (\<forall>i x. i \<noteq> ix \<and> cell (frame st) i ''V0'' = Some x \<longrightarrow>
               cell (frame st') i ''V0'' = Some x)
         \<and> (if np_less tau 0.0039
             then v = np_maximum (np_sub s k) (Some 0) \<and> calls st' = calls st
             else pricer s var k tau = Inr v \<and> calls st' = calls st @ [(s, var, k, tau)])"
  using assms
  by (auto simp: hs_price_row_def cell_set_loc_same cell_set_loc_other_row
           split: option.splits if_splits sum.splits prod.splits)

lemma hs_price_wrapper_run:
  assumes "iterrows (hs_price_row df pricer) [0..<n] \<lparr>frame = df, price = None, calls = []\<rparr>
             = (st, None)"
  shows "\<forall>i<n. \<exists>s var tau k.
           cell df i ''S0'' = Some s \<and> cell df i ''Var0'' = Some var
         \<and> cell df i ''tau0'' = Some tau \<and> cell df i ''K'' = Some k
         \<and> (if np_less tau 0.0039
             then cell (frame st) i ''V0'' = Some (np_maximum (np_sub s k) (Some 0))
             else \<exists>v. pricer s var k tau = Inr v \<and> cell (frame st) i ''V0'' = Some v)"
  using assms
proof (induction n arbitrary: st)
  case 0
  then show ?case by simp
next
  case (Suc n)
  let ?body = "hs_price_row df pricer"
  have upt: "[0..<Suc n] = [0..<n] @ [n]" by simp
  obtain st1 where prev: "iterrows ?body [0..<n] \<lparr>frame = df, price = None, calls = []\<rparr> = (st1, None)"
    and last: "?body n st1 = (st, None)"
    using Suc.prems unfolding upt iterrows_snoc
    by (auto split: prod.splits option.splits)
  note ih = Suc.IH [OF prev, rule_format]
  obtain s var tau k v where step:
    "cell df n ''S0'' = Some s" "cell df n ''Var0'' = Some var"
    "cell df n ''tau0'' = Some tau" "cell df n ''K'' = Some k"
    "cell (frame st) n ''V0'' = Some v"
    "\<forall>i x. i \<noteq> n \<and> cell (frame st1) i ''V0'' = Some x \<longrightarrow> cell (frame st) i ''V0'' = Some x"
    "if np_less tau 0.0039
             then v = np_maximum (np_sub s k) (Some 0) \<and> calls st = calls st1
             else pricer s var k tau = Inr v \<and> calls st = calls st1 @ [(s, var, k, tau)]"
    using hs_price_row_ok [OF last] by blast
  show ?case
  proof (intro allI impI)
    fix i assume i: "i < Suc n"
    show "\<exists>s var tau k.
           cell df i ''S0'' = Some s \<and> cell df i ''Var0'' = Some var
         \<and> cell df i ''tau0'' = Some tau \<and> cell df i ''K'' = Some k
         \<and> (if np_less tau 0.0039
             then cell (frame st) i ''V0'' = Some (np_maximum (np_sub s k) (Some 0))
             else \<exists>v. pricer s var k tau = Inr v \<and> cell (frame st) i ''V0'' = Some v)"
    proof (cases "i = n")
      case True
      show ?thesis
        unfolding True using step(1-5,7)
        by (intro exI [of _ s] exI [of _ var] exI [of _ tau] exI [of _ k]) (auto split: if_splits)
    next
      case False
      then have "i < n" using i by simp
      from ih [OF this] obtain s' var' tau' k' where old:
        "cell df i ''S0'' = Some s'" "cell df i ''Var0'' = Some var'"
        "cell df i ''tau0'' = Some tau'" "cell df i ''K'' = Some k'"
        "if np_less tau' 0.0039
             then cell (frame st1) i ''V0'' = Some (np_maximum (np_sub s' k') (Some 0))
             else \<exists>v. pricer s' var' k' tau' = Inr v \<and> cell (frame st1) i ''V0'' = Some v"
        by blast
      have keep: "cell (frame st1) i ''V0'' = Some x \<Longrightarrow> cell (frame st) i ''V0'' = Some x" for x
        using step(6) False by blast
      show ?thesis
        using old keep
        by (intro exI [of _ s'] exI [of _ var'] exI [of _ tau'] exI [of _ k'])
           (auto split: if_splits)
    qed
  qed
qed

text \<open>
  When \<open>hs_price_wrapper\<close> completes, every row with \<open>tau < 0.0039\<close> holds its intrinsic
  value in the column \<open>V0\<close>.
\<close>

lemma hs_price_wrapper_near_expiry:
  assumes "snd (hs_price_wrapper df pricer) = None" "i < nrows df"
    "cell df i ''S0'' = Some s" "cell df i ''K'' = Some k" "cell df i ''tau0'' = Some tau"
    "np_less tau 0.0039"
  shows "cell (frame (fst (hs_price_wrapper df pricer))) i ''V0''
           = Some (np_maximum (np_sub s k) (Some 0))"
proof -
  have run: "iterrows (hs_price_row df pricer) [0..<nrows df]
               \<lparr>frame = df, price = None, calls = []\<rparr> = (fst (hs_price_wrapper df pricer), None)"
    using assms(1) by (simp add: hs_price_wrapper_def prod_eq_iff)
  show ?thesis
    using hs_price_wrapper_run [OF run, rule_format, OF assms(2)] assms(3-6) by auto
qed

text \<open>
  Claim C5. In \<open>hs_price_1M_ATM_wrapper\<close>: a row that completes ends with the local
  \<open>price\<close> in its output cell, whichever branch was taken; if the first row has
  \<open>tau < 0.0039\<close>, the call fails with \<open>UnboundLocalError\<close> (a \<open>NameError\<close>); and when
  the call completes, the output cell of every row with \<open>tau < 0.0039\<close> holds the price
  that \<open>call_price\<close> returned for an earlier row with \<open>tau \<ge> 0.0039\<close>.
\<close>

theorem hs_price_1M_ATM_wrapper_unconditional_write:
  "(hs_price_1M_ATM_row df pricer s_name var_name tau_name v_name ix st = (st', None) \<longrightarrow>
        cell (frame st') ix v_name = price st')
   \<and> (0 < nrows df \<and> cell df 0 s_name = Some s \<and> cell df 0 var_name = Some var
        \<and> cell df 0 ''K'' = Some k \<and> cell df 0 tau_name = Some tau \<and> np_less tau 0.0039 \<longrightarrow>
        snd (hs_price_1M_ATM_wrapper df pricer s_name var_name tau_name v_name)
          = Some UnboundLocalError)
   \<and> (snd (hs_price_1M_ATM_wrapper df pricer s_name var_name tau_name v_name) = None
        \<and> i < nrows df \<and> cell df i tau_name = Some tau_i \<and> np_less tau_i 0.0039 \<longrightarrow>
        (\<exists>j<i. \<exists>s' var' k' tau' p.
            cell df j s_name = Some s' \<and> cell df j var_name = Some var'
          \<and> cell df j ''K'' = Some k' \<and> cell df j tau_name = Some tau'
          \<and> \<not> np_less tau' 0.0039 \<and> pricer s' var' k' tau' = Inr p
          \<and> cell (frame (fst (hs_price_1M_ATM_wrapper df pricer s_name var_name tau_name v_name)))
                i v_name = Some p))"
proof (intro conjI impI)
  assume "hs_price_1M_ATM_row df pricer s_name var_name tau_name v_name ix st = (st', None)"
  then show "cell (frame st') ix v_name = price st'"
    using hs_price_1M_ATM_row_ok [of df pricer s_name var_name tau_name v_name ix st st'] by auto
next
  assume a: "0 < nrows df \<and> cell df 0 s_name = Some s \<and> cell df 0 var_name = Some var
        \<and> cell df 0 ''K'' = Some k \<and> cell df 0 tau_name = Some tau \<and> np_less tau 0.0039"
  then have "[0..<nrows df] = 0 # [1..<nrows df]"
    by (simp add: upt_conv_Cons)
  then show "snd (hs_price_1M_ATM_wrapper df pricer s_name var_name tau_name v_name)
          = Some UnboundLocalError"
    using a by (simp add: hs_price_1M_ATM_wrapper_def hs_price_1M_ATM_row_def)
next
  let ?res = "hs_price_1M_ATM_wrapper df pricer s_name var_name tau_name v_name"
  assume a: "snd ?res = None \<and> i < nrows df \<and> cell df i tau_name = Some tau_i
               \<and> np_less tau_i 0.0039"
  then have run: "iterrows (hs_price_1M_ATM_row df pricer s_name var_name tau_name v_name)
                    [0..<nrows df] \<lparr>frame = df, price = None, calls = []\<rparr> = (fst ?res, None)"
    by (simp add: hs_price_1M_ATM_wrapper_def prod_eq_iff)
  note inv = hs_price_1M_ATM_run [OF run]
  from inv [THEN conjunct2, rule_format, of i] a
  obtain p where p: "cell (frame (fst ?res)) i v_name = Some p"
    "\<exists>j<i. \<exists>s var k tau.
        cell df j s_name = Some s \<and> cell df j var_name = Some var
      \<and> cell df j ''K'' = Some k \<and> cell df j tau_name = Some tau
      \<and> \<not> np_less tau 0.0039 \<and> pricer s var k tau = Inr p"
    by blast
  then show "\<exists>j<i. \<exists>s' var' k' tau' p.
            cell df j s_name = Some s' \<and> cell df j var_name = Some var'
          \<and> cell df j ''K'' = Some k' \<and> cell df j tau_name = Some tau'
          \<and> \<not> np_less tau' 0.0039 \<and> pricer s' var' k' tau' = Inr p
          \<and> cell (frame (fst ?res)) i v_name = Some p"
    by blast
qed

lemma stale_cells:
  "cell (quotes [(100, 0.04, 100, 1), (110, 0.04, 100, 0.001)]) 0 ''S0'' = Some (Some 100)
   \<and> cell (quotes [(100, 0.04, 100, 1), (110, 0.04, 100, 0.001)]) 0 ''Var0'' = Some (Some 0.04)
   \<and> cell (quotes [(100, 0.04, 100, 1), (110, 0.04, 100, 0.001)]) 0 ''K'' = Some (Some 100)
   \<and> cell (quotes [(100, 0.04, 100, 1), (110, 0.04, 100, 0.001)]) 0 ''tau0'' = Some (Some 1)
   \<and> cell (quotes [(100, 0.04, 100, 1), (110, 0.04, 100, 0.001)]) 1 ''S0'' = Some (Some 110)
   \<and> cell (quotes [(100, 0.04, 100, 1), (110, 0.04, 100, 0.001)]) 1 ''Var0'' = Some (Some 0.04)
   \<and> cell (quotes [(100, 0.04, 100, 1), (110, 0.04, 100, 0.001)]) 1 ''K'' = Some (Some 100)
   \<and> cell (quotes [(100, 0.04, 100, 1), (110, 0.04, 100, 0.001)]) 1 ''tau0'' = Some (Some 0.001)"
  using quotes_cells [of 0 "[(100, 0.04, 100, 1), (110, 0.04, 100, 0.001)]" 100 "0.04" 100 1]
    quotes_cells [of 1 "[(100, 0.04, 100, 1), (110, 0.04, 100, 0.001)]" 110 "0.04" 100 "0.001"]
  by simp

lemma stale_run:
  "hs_price_1M_ATM_wrapper (quotes [(100, 0.04, 100, 1), (110, 0.04, 100, 0.001)])
      intrinsic_pricer ''S0'' ''Var0'' ''tau0'' ''V0''
     = (\<lparr>frame = set_loc (set_loc (set_loc
                   (quotes [(100, 0.04, 100, 1), (110, 0.04, 100, 0.001)])
                   0 ''V0'' (Some 0)) 1 ''V0'' (Some 10)) 1 ''V0'' (Some 0),
         price = Some (Some 0), calls = [(Some 100, Some 0.04, Some 100, Some 1)]\<rparr>, None)"
proof -
  have n: "[0..<nrows (quotes [(100, 0.04, 100, 1), (110, 0.04, 100, 0.001)])] = [0, 1]"
    by (simp add: quotes_def upt_rec)
  show ?thesis
    unfolding hs_price_1M_ATM_wrapper_def n
    using stale_cells
    by (simp add: hs_price_1M_ATM_row_def np_less_def np_maximum_def np_sub_def
          intrinsic_pricer_def)
qed

lemma stale_first_row:
  "hs_price_1M_ATM_row (quotes [(100, 0.04, 100, 1), (110, 0.04, 100, 0.001)]) intrinsic_pricer
      ''S0'' ''Var0'' ''tau0'' ''V0'' 0
      \<lparr>frame = quotes [(100, 0.04, 100, 1), (110, 0.04, 100, 0.001)], price = None, calls = []\<rparr>
   = (\<lparr>frame = set_loc (quotes [(100, 0.04, 100, 1), (110, 0.04, 100, 0.001)]) 0 ''V0'' (Some 0),
        price = Some (Some 0), calls = [(Some 100, Some 0.04, Some 100, Some 1)]\<rparr>, None)"
  using stale_cells
  by (simp add: hs_price_1M_ATM_row_def np_less_def np_maximum_def np_sub_def intrinsic_pricer_def)

text \<open>
  The three parts on concrete tables, with the intrinsic-value pricer: the at-the-money
  row with \<open>tau0 = 1\<close> is priced 0, and the following row with \<open>tau0 = 0.001\<close>, whose
  intrinsic value is 10, ends with that 0 in its output cell.
\<close>

theorem hs_price_1M_ATM_wrapper_unconditional_write_witness:
  "cell (set_loc (quotes [(100, 0.04, 100, 1), (110, 0.04, 100, 0.001)]) 0 ''V0'' (Some 0))
      0 ''V0'' = Some (Some 0)
   \<and> snd (hs_price_1M_ATM_wrapper (quotes [(110, 0.04, 100, 0.001)]) intrinsic_pricer
            ''S0'' ''Var0'' ''tau0'' ''V0'') = Some UnboundLocalError
   \<and> snd (hs_price_1M_ATM_wrapper (quotes [(100, 0.04, 100, 1), (110, 0.04, 100, 0.001)])
            intrinsic_pricer ''S0'' ''Var0'' ''tau0'' ''V0'') = None
   \<and> cell (frame (fst (hs_price_1M_ATM_wrapper
                          (quotes [(100, 0.04, 100, 1), (110, 0.04, 100, 0.001)])
                          intrinsic_pricer ''S0'' ''Var0'' ''tau0'' ''V0''))) 1 ''V0''
        = Some (Some 0)"
proof -
  let ?df = "quotes [(100, 0.04, 100, 1), (110, 0.04, 100, 0.001)]"
  let ?near = "quotes [(110, 0.04, 100, 0.001)]"
  note w1 = hs_price_1M_ATM_wrapper_unconditional_write
    [where df = ?df and ix = 0 and st = "\<lparr>frame = ?df, price = None, calls = []\<rparr>"
       and st' = "\<lparr>frame = set_loc ?df 0 ''V0'' (Some 0), price = Some (Some 0),
                    calls = [(Some 100, Some 0.04, Some 100, Some 1)]\<rparr>"
       and pricer = intrinsic_pricer and s_name = "''S0''" and var_name = "''Var0''"
       and tau_name = "''tau0''" and v_name = "''V0''", THEN conjunct1]
  note w2 = hs_price_1M_ATM_wrapper_unconditional_write
    [where df = ?near and s = "Some 110" and var = "Some 0.04"
       and k = "Some 100" and tau = "Some 0.001"
       and pricer = intrinsic_pricer and s_name = "''S0''" and var_name = "''Var0''"
       and tau_name = "''tau0''" and v_name = "''V0''", THEN conjunct2, THEN conjunct1]
  note w3 = hs_price_1M_ATM_wrapper_unconditional_write
    [where df = ?df and i = 1 and tau_i = "Some 0.001"
       and pricer = intrinsic_pricer and s_name = "''S0''" and var_name = "''Var0''"
       and tau_name = "''tau0''" and v_name = "''V0''", THEN conjunct2, THEN conjunct2]
  have a: "cell (set_loc ?df 0 ''V0'' (Some 0)) 0 ''V0'' = Some (Some 0)"
    using w1 stale_first_row by simp
  have near: "0 < nrows ?near \<and> cell ?near 0 ''S0'' = Some (Some 110)
     \<and> cell ?near 0 ''Var0'' = Some (Some 0.04) \<and> cell ?near 0 ''K'' = Some (Some 100)
     \<and> cell ?near 0 ''tau0'' = Some (Some 0.001) \<and> np_less (Some 0.001) 0.0039"
    using quotes_cells [of 0 "[(110, 0.04, 100, 0.001)]" 110 "0.04" 100 "0.001"]
    by (simp add: quotes_def np_less_def)
  have b: "snd (hs_price_1M_ATM_wrapper ?near intrinsic_pricer
            ''S0'' ''Var0'' ''tau0'' ''V0'') = Some UnboundLocalError"
    using w2 near by blast
  have c: "snd (hs_price_1M_ATM_wrapper ?df intrinsic_pricer ''S0'' ''Var0'' ''tau0'' ''V0'') = None"
    using stale_run by simp
  have hyp: "1 < nrows ?df \<and> cell ?df 1 ''tau0'' = Some (Some 0.001) \<and> np_less (Some 0.001) 0.0039"
    using stale_cells by (simp add: quotes_def np_less_def)
  from w3 c hyp obtain j s' var' k' tau' p where j: "j < 1"
    "cell ?df j ''S0'' = Some s'" "cell ?df j ''K'' = Some k'"
    "intrinsic_pricer s' var' k' tau' = Inr p"
    "cell (frame (fst (hs_price_1M_ATM_wrapper ?df intrinsic_pricer
                          ''S0'' ''Var0'' ''tau0'' ''V0''))) 1 ''V0'' = Some p"
    by blast
  have "j = 0" using j(1) by simp
  then have "s' = Some 100" "k' = Some 100" using j(2,3) stale_cells by simp_all
  then have "p = Some 0" using j(4) by (simp add: intrinsic_pricer_def np_maximum_def np_sub_def)
  then have d: "cell (frame (fst (hs_price_1M_ATM_wrapper ?df intrinsic_pricer
                          ''S0'' ''Var0'' ''tau0'' ''V0''))) 1 ''V0'' = Some (Some 0)"
    using j(5) by simp
  show ?thesis using a b c d by blast
qed

text \<open>
  Claim C10. For \<open>s0 > 0\<close>, when the pricer returns the numbers \<open>p_plus\<close> and \<open>p_minus\<close> at
  \<open>s0 + ds\<close> and \<open>s0 - ds\<close> with \<open>ds = s0 * 0.001\<close>, the delta is
  \<open>(p_plus - p_minus) / (2 * ds)\<close>; for \<open>v0 > 0\<close>, when it returns \<open>q_plus\<close> and \<open>q_minus\<close>
  at \<open>v0 + dv\<close> and \<open>v0 - dv\<close> with \<open>dv = v0 * 0.001\<close>, the sensitivity to the variance is
  \<open>(q_plus - q_minus) / (2 * dv)\<close>.
\<close>

theorem finite_difference_greeks:
  "(0 < s0
      \<and> pricer (Some (s0 + s0 * 0.001)) (Some v0) (Some k) (Some tau) = Inr (Some p_plus)
      \<and> pricer (Some (s0 - s0 * 0.001)) (Some v0) (Some k) (Some tau) = Inr (Some p_minus) \<longrightarrow>
        calc_Heston_delta_by_FD (Some s0) (Some v0) (Some k) (Some tau) pricer
          = Inr (Some ((p_plus - p_minus) / (2 * (s0 * 0.001)))))
   \<and> (0 < v0
      \<and> pricer (Some s0) (Some (v0 + v0 * 0.001)) (Some k) (Some tau) = Inr (Some q_plus)
      \<and> pricer (Some s0) (Some (v0 - v0 * 0.001)) (Some k) (Some tau) = Inr (Some q_minus) \<longrightarrow>
        calc_Heston_vega_by_FD (Some s0) (Some v0) (Some k) (Some tau) pricer
          = Inr (Some ((q_plus - q_minus) / (2 * (v0 * 0.001)))))"
  by (simp add: calc_Heston_delta_by_FD_def calc_Heston_vega_by_FD_def Let_def
        np_mul_def np_add_def np_sub_def np_divide_def)

text \<open>
  Both differences at \<open>s0 = 100\<close>, \<open>v0 = 0.04\<close>, \<open>K = 90\<close>, \<open>tau = 1\<close> with the
  intrinsic-value pricer.
\<close>

theorem finite_difference_greeks_witness:
  "calc_Heston_delta_by_FD (Some 100) (Some 0.04) (Some 90) (Some 1) intrinsic_pricer
     = Inr (Some ((10.1 - 9.9) / (2 * (100 * 0.001))))
   \<and> calc_Heston_vega_by_FD (Some 100) (Some 0.04) (Some 90) (Some 1) intrinsic_pricer
     = Inr (Some ((10 - 10) / (2 * (0.04 * 0.001))))"
  using finite_difference_greeks [of 100 intrinsic_pricer "0.04" 90 1 "10.1" "9.9" 10 10]
  by (simp add: intrinsic_pricer_def np_maximum_def np_sub_def)

end
